theory Spec2Isabelle
  imports Complex_Main "HOL-Library.Word"
begin

unbundle bit_operations_syntax

section \<open>Numbers, vectors and matrices\<close>

text \<open>
  The renderer computes in single-precision \<^verbatim>\<open>float\<close>. The embedding reads every
  \<^verbatim>\<open>float\<close> as a real number and every float operation as the exact operation, so
  the theorems below are statements about the arithmetic the code writes down, not about
  rounding, infinities or NaN. Unsigned 32-bit integers are \<open>32 word\<close> and wrap.
\<close>

type_synonym float = real
type_synonym uint32 = "32 word"

datatype float2 = Float2 (f2x: float) (f2y: float)
datatype float3 = Float3 (f3x: float) (f3y: float) (f3z: float)

text \<open>A \<^verbatim>\<open>float2x2\<close> has the rows \<^verbatim>\<open>r0\<close>, \<^verbatim>\<open>r1\<close>; a \<^verbatim>\<open>float3x3\<close> three rows.\<close>

datatype float2x2 = Float2x2 (m2r0: float2) (m2r1: float2)
datatype float3x3 = Float3x3 (m3r0: float3) (m3r1: float3) (m3r2: float3)

text \<open>
  Modelled from the spec: the float2/float3 operators and the functions of MathLib
  (\<^verbatim>\<open>Dot\<close>, \<^verbatim>\<open>Cross\<close>, \<^verbatim>\<open>LengthSquared\<close>, \<^verbatim>\<open>Length\<close>, \<^verbatim>\<open>Normalize\<close>, \<^verbatim>\<open>Saturate\<close>,
  \<^verbatim>\<open>Math::Absf\<close>, \<^verbatim>\<open>Math::Sqrtf\<close>, \<^verbatim>\<open>Math::Powf\<close>) are not under src; they are given
  the component-wise and textbook meaning their names and the spec's formulas
  (\<open>cross(n,t) * bh\<close>, \<open>|dot(n, viewDir)|\<close>, \<open>|newPos - prevPos|\<^sup>2\<close>) say.
\<close>

definition Zero3 :: float3 where
  "Zero3 = Float3 0 0 0"

definition One3 :: float3 where
  "One3 = Float3 1 1 1"

definition ZAxis3 :: float3 where
  "ZAxis3 = Float3 0 0 1"

definition Zero2 :: float2 where
  "Zero2 = Float2 0 0"

fun add3 :: "float3 \<Rightarrow> float3 \<Rightarrow> float3" where
  "add3 (Float3 a b c) (Float3 d e f) = Float3 (a + d) (b + e) (c + f)"

fun sub3 :: "float3 \<Rightarrow> float3 \<Rightarrow> float3" where
  "sub3 (Float3 a b c) (Float3 d e f) = Float3 (a - d) (b - e) (c - f)"

fun mul3 :: "float3 \<Rightarrow> float3 \<Rightarrow> float3" where
  "mul3 (Float3 a b c) (Float3 d e f) = Float3 (a * d) (b * e) (c * f)"

fun neg3 :: "float3 \<Rightarrow> float3" where
  "neg3 (Float3 a b c) = Float3 (- a) (- b) (- c)"

text \<open>\<^verbatim>\<open>s * v\<close> and \<^verbatim>\<open>v * s\<close> with a scalar \<open>s\<close>.\<close>

fun scale3 :: "float \<Rightarrow> float3 \<Rightarrow> float3" where
  "scale3 s (Float3 a b c) = Float3 (s * a) (s * b) (s * c)"

fun scaleR3 :: "float3 \<Rightarrow> float \<Rightarrow> float3" where
  "scaleR3 (Float3 a b c) s = Float3 (a * s) (b * s) (c * s)"

text \<open>\<^verbatim>\<open>v - s\<close> with a scalar \<open>s\<close> subtracts it from every component.\<close>

fun subS3 :: "float3 \<Rightarrow> float \<Rightarrow> float3" where
  "subS3 (Float3 a b c) s = Float3 (a - s) (b - s) (c - s)"

fun add2 :: "float2 \<Rightarrow> float2 \<Rightarrow> float2" where
  "add2 (Float2 a b) (Float2 d e) = Float2 (a + d) (b + e)"

fun sub2 :: "float2 \<Rightarrow> float2 \<Rightarrow> float2" where
  "sub2 (Float2 a b) (Float2 d e) = Float2 (a - d) (b - e)"

fun scale2 :: "float \<Rightarrow> float2 \<Rightarrow> float2" where
  "scale2 s (Float2 a b) = Float2 (s * a) (s * b)"

fun Dot :: "float3 \<Rightarrow> float3 \<Rightarrow> float" where
  "Dot (Float3 a b c) (Float3 d e f) = a * d + b * e + c * f"

fun Cross :: "float3 \<Rightarrow> float3 \<Rightarrow> float3" where
  "Cross (Float3 a b c) (Float3 d e f) =
     Float3 (b * f - c * e) (c * d - a * f) (a * e - b * d)"

definition LengthSquared :: "float3 \<Rightarrow> float" where
  "LengthSquared v = Dot v v"

definition Sqrtf :: "float \<Rightarrow> float" where
  "Sqrtf a = sqrt a"

definition Length :: "float3 \<Rightarrow> float" where
  "Length v = Sqrtf (LengthSquared v)"

definition Normalize :: "float3 \<Rightarrow> float3" where
  "Normalize v = scale3 (1 / Length v) v"

definition Absf :: "float \<Rightarrow> float" where
  "Absf a = \<bar>a\<bar>"

definition Saturate :: "float \<Rightarrow> float" where
  "Saturate a = max 0 (min 1 a)"

definition Powf :: "float \<Rightarrow> float \<Rightarrow> float" where
  "Powf a b = a powr b"

definition MakeFloat3x3 :: "float3 \<Rightarrow> float3 \<Rightarrow> float3 \<Rightarrow> float3x3" where
  "MakeFloat3x3 a b c = Float3x3 a b c"

fun MatrixTranspose :: "float3x3 \<Rightarrow> float3x3" where
  "MatrixTranspose (Float3x3 (Float3 a b c) (Float3 d e f) (Float3 g h i)) =
     Float3x3 (Float3 a d g) (Float3 b e h) (Float3 c f i)"

text \<open>\<^verbatim>\<open>MatrixMultiply(v, m)\<close>: the row vector \<open>v\<close> times the matrix \<open>m\<close>.\<close>

definition MatrixMultiply :: "float3 \<Rightarrow> float3x3 \<Rightarrow> float3" where
  "MatrixMultiply v m =
     add3 (add3 (scale3 (f3x v) (m3r0 m)) (scale3 (f3y v) (m3r1 m))) (scale3 (f3z v) (m3r2 m))"

section \<open>Surface parameters\<close>

record SurfaceDifferentials =
  sd_dpdx :: float3
  sd_dpdy :: float3
  sd_dndu :: float3
  sd_dndv :: float3
  sd_duvdx :: float2
  sd_duvdy :: float2

text \<open>
  The fields of \<^verbatim>\<open>SurfaceParameters\<close> that SurfaceParameters.cpp and VCM.cpp read or
  write (the header is not under src). \<^verbatim>\<open>view\<close> is read by the vertex connection and
  merging but never written by \<^verbatim>\<open>CalculateSurfaceParams\<close>.
\<close>

record SurfaceParameters =
  surf_position :: float3
  surf_geometricNormal :: float3
  surf_perturbedNormal :: float3
  surf_view :: float3
  surf_error :: float
  surf_tangentToWorld :: float3x3
  surf_worldToTangent :: float3x3
  surf_rxOrigin :: float3
  surf_rxDirection :: float3
  surf_ryOrigin :: float3
  surf_ryDirection :: float3
  surf_dpdu :: float3
  surf_dpdv :: float3
  surf_differentials :: SurfaceDifferentials
  surf_materialFlags :: uint32
  surf_emissive :: float3
  surf_albedo :: float3
  surf_specularColor :: float3
  surf_roughness :: float
  surf_metalness :: float
  surf_shader :: uint32
  surf_ior :: float

subsection \<open>OffsetRayOrigin\<close>

definition OffsetRayOrigin :: "SurfaceParameters \<Rightarrow> float3 \<Rightarrow> float \<Rightarrow> float3" where
  "OffsetRayOrigin surface direction biasScale =
     (let offsetDirection = (if Dot direction (surf_geometricNormal surface) < 0 then - 1 else 1);
          offset = scale3 (offsetDirection * surf_error surface * biasScale)
                          (surf_geometricNormal surface)
      in add3 (surf_position surface) offset)"

section \<open>Scene tables and hits\<close>

text \<open>
  The scene's arrays are raw pointers in the source and are read without a bounds check;
  they are total functions of the 32-bit index here. A texture is represented by the
  answers of the (external) texture filters on it: \<^verbatim>\<open>TextureFiltering::TriangleFloat3(tex.data,
  level, uv)\<close> is \<open>tex_TriangleFloat3 tex level uv\<close>, and so on.
\<close>

record VertexAuxiliaryData =
  vad_px :: float
  vad_py :: float
  vad_pz :: float
  vad_nx :: float
  vad_ny :: float
  vad_nz :: float
  vad_tx :: float
  vad_ty :: float
  vad_tz :: float
  vad_bh :: float
  vad_u :: float
  vad_v :: float
  vad_materialIndex :: uint32

record Material =
  mat_flags :: uint32
  mat_emissiveTextureIndex :: uint32
  mat_albedoTextureIndex :: uint32
  mat_specularTextureIndex :: uint32
  mat_roughnessTextureIndex :: uint32
  mat_metalnessTextureIndex :: uint32
  mat_normalTextureIndex :: uint32
  mat_albedo :: float3
  mat_roughness :: float
  mat_metalness :: float
  mat_shader :: uint32
  mat_ior :: float

record TextureResource =
  tex_TriangleFloat3 :: "nat \<Rightarrow> float2 \<Rightarrow> float3"
  tex_EWAFloat3 :: "float2 \<Rightarrow> float2 \<Rightarrow> float2 \<Rightarrow> float3"
  tex_TriangleFloat :: "nat \<Rightarrow> float2 \<Rightarrow> float"
  tex_EWAFloat :: "float2 \<Rightarrow> float2 \<Rightarrow> float2 \<Rightarrow> float"

record SceneResource =
  scene_indices :: "uint32 \<Rightarrow> uint32"
  scene_vertexData :: "uint32 \<Rightarrow> VertexAuxiliaryData"
  scene_materials :: "uint32 \<Rightarrow> Material"
  scene_textures :: "uint32 \<Rightarrow> TextureResource"
  scene_boundingSphereRadius :: float

record HitParameters =
  hit_position :: float3
  hit_baryCoords :: float2
  hit_primId :: uint32
  hit_error :: float
  hit_viewDirection :: float3
  hit_rxOrigin :: float3
  hit_rxDirection :: float3
  hit_ryOrigin :: float3
  hit_ryDirection :: float3
  hit_pixelIndex :: uint32
  hit_throughput :: float3
  hit_bounceCount :: uint32

text \<open>
  Constants and helpers of headers that are not under src, taken as parameters: the
  invalid texture index, the material flag masks, the small epsilon of the degenerate-UV
  test, \<^verbatim>\<open>MakeOrthogonalCoordinateSystem\<close> (returning the two vectors it writes) and
  \<^verbatim>\<open>Matrix2x2::SolveLinearSystem\<close> (\<open>None\<close> when it returns false).
\<close>

record ShadingLib =
  InvalidIndex32 :: uint32
  eTransparent :: uint32
  eHasTextures :: uint32
  ePreserveRayDifferentials :: uint32
  SmallFloatEpsilon :: float
  MakeOrthogonalCoordinateSystem :: "float3 \<Rightarrow> float3 \<times> float3"
  SolveLinearSystem :: "float2x2 \<Rightarrow> float2 \<Rightarrow> float2 option"

section \<open>Texture sampling\<close>

text \<open>\<^verbatim>\<open>#define EnableEWA_ false\<close>\<close>

definition EnableEWA :: bool where
  "EnableEWA = False"

text \<open>
  Modelled from the spec: \<^verbatim>\<open>Math::SrgbToLinearPrecise\<close> (MathLib/ColorSpace.h) is not under
  src. The spec says that sRGB textures are converted to linear; this is the sRGB decoding
  function of IEC 61966-2-1, applied per channel.
\<close>

definition SrgbToLinearPrecise :: "float \<Rightarrow> float" where
  "SrgbToLinearPrecise c =
     (if c \<le> 0.04045 then c / 12.92 else Powf ((c + 0.055) / 1.055) 2.4)"

fun SrgbToLinearPrecise3 :: "float3 \<Rightarrow> float3" where
  "SrgbToLinearPrecise3 (Float3 r g b) =
     Float3 (SrgbToLinearPrecise r) (SrgbToLinearPrecise g) (SrgbToLinearPrecise b)"

definition SampleTextureNormal ::
  "ShadingLib \<Rightarrow> SurfaceParameters \<Rightarrow> SceneResource \<Rightarrow> float2 \<Rightarrow> uint32 \<Rightarrow> bool \<Rightarrow> float3" where
  "SampleTextureNormal lib surface scene uvs textureIndex hasDifferentials =
     (if textureIndex = InvalidIndex32 lib then ZAxis3
      else
        let textures = scene_textures scene;
            sample =
              (if EnableEWA \<and> hasDifferentials
               then tex_EWAFloat3 (textures textureIndex) uvs
                      (sd_duvdx (surf_differentials surface)) (sd_duvdy (surf_differentials surface))
               else tex_TriangleFloat3 (textures textureIndex) 0 uvs)
        in subS3 (scale3 2 sample) 1)"

definition SampleTextureFloat3 ::
  "ShadingLib \<Rightarrow> SurfaceParameters \<Rightarrow> SceneResource \<Rightarrow> float2 \<Rightarrow> uint32 \<Rightarrow> bool \<Rightarrow> bool
     \<Rightarrow> float3 \<Rightarrow> float3" where
  "SampleTextureFloat3 lib surface scene uvs textureIndex sRGB hasDifferentials defaultValue =
     (if textureIndex = InvalidIndex32 lib then defaultValue
      else
        let textures = scene_textures scene;
            sample =
              (if EnableEWA \<and> hasDifferentials
               then tex_EWAFloat3 (textures textureIndex) uvs
                      (sd_duvdx (surf_differentials surface)) (sd_duvdy (surf_differentials surface))
               else tex_TriangleFloat3 (textures textureIndex) 0 uvs);
            sample = (if sRGB then SrgbToLinearPrecise3 sample else sample)
        in sample)"

definition SampleTextureFloat ::
  "ShadingLib \<Rightarrow> SurfaceParameters \<Rightarrow> SceneResource \<Rightarrow> float2 \<Rightarrow> uint32 \<Rightarrow> bool \<Rightarrow> bool
     \<Rightarrow> float \<Rightarrow> float" where
  "SampleTextureFloat lib surface scene uvs textureIndex sRGB hasDifferentials defaultValue =
     (if textureIndex = InvalidIndex32 lib then defaultValue
      else
        let textures = scene_textures scene;
            sample =
              (if EnableEWA \<and> hasDifferentials
               then tex_EWAFloat (textures textureIndex) uvs
                      (sd_duvdx (surf_differentials surface)) (sd_duvdy (surf_differentials surface))
               else tex_TriangleFloat (textures textureIndex) 0 uvs);
            sample = (if sRGB then SrgbToLinearPrecise sample else sample)
        in sample)"

section \<open>Surface differentials\<close>

text \<open>
  Modelled from the spec: the default-constructed \<^verbatim>\<open>SurfaceDifferentials()\<close> of the failure
  path (the struct is not under src); the spec says that all differentials are zeroed.
\<close>

definition SurfaceDifferentials_default :: SurfaceDifferentials where
  "SurfaceDifferentials_default =
     \<lparr> sd_dpdx = Zero3, sd_dpdy = Zero3, sd_dndu = Zero3, sd_dndv = Zero3,
       sd_duvdx = Zero2, sd_duvdy = Zero2 \<rparr>"

text \<open>
  \<^verbatim>\<open>Math::IsInf(q) || Math::IsNaN(q)\<close> for a quotient \<open>q = a / b\<close>: in exact arithmetic
  the quotient fails to be a finite number exactly when the divisor is zero.
\<close>

definition IsInfOrNaN_quotient :: "float \<Rightarrow> float \<Rightarrow> bool" where
  "IsInfOrNaN_quotient a b = (b = 0)"

definition CalculateSurfaceDifferentials ::
  "ShadingLib \<Rightarrow> HitParameters \<Rightarrow> float3 \<Rightarrow> float3 \<Rightarrow> float3 \<Rightarrow> SurfaceDifferentials
     \<Rightarrow> SurfaceDifferentials" where
  "CalculateSurfaceDifferentials lib hit n dpdu dpdv outputs =
     (let d = Dot n (hit_position hit);
          tx = - (Dot n (hit_rxOrigin hit) - d) / Dot n (hit_rxDirection hit)
      in if IsInfOrNaN_quotient (- (Dot n (hit_rxOrigin hit) - d)) (Dot n (hit_rxDirection hit))
         then SurfaceDifferentials_default
         else
           let px = add3 (hit_rxOrigin hit) (scale3 tx (hit_rxDirection hit));
               ty = - (Dot n (hit_ryOrigin hit) - d) / Dot n (hit_ryDirection hit)
           in if IsInfOrNaN_quotient (- (Dot n (hit_ryOrigin hit) - d)) (Dot n (hit_ryDirection hit))
              then SurfaceDifferentials_default
              else
                let py = add3 (hit_ryOrigin hit) (scale3 ty (hit_ryDirection hit));
                    outputs = outputs\<lparr> sd_dpdx := sub3 px (hit_position hit) \<rparr>;
                    outputs = outputs\<lparr> sd_dpdy := sub3 py (hit_position hit) \<rparr>;
                    pos = hit_position hit;
                    (A, Bx, By) =
                      (if Absf (f3x n) > Absf (f3y n) \<and> Absf (f3x n) > Absf (f3z n)
                       then (Float2x2 (Float2 (f3y dpdu) (f3y dpdv)) (Float2 (f3z dpdu) (f3z dpdv)),
                             Float2 (f3y px - f3y pos) (f3z px - f3z pos),
                             Float2 (f3y py - f3y pos) (f3z py - f3z pos))
                       else if Absf (f3y n) > Absf (f3z n)
                       then (Float2x2 (Float2 (f3x dpdu) (f3x dpdv)) (Float2 (f3z dpdu) (f3z dpdv)),
                             Float2 (f3x px - f3x pos) (f3z px - f3z pos),
                             Float2 (f3x py - f3x pos) (f3z py - f3z pos))
                       else (Float2x2 (Float2 (f3x dpdu) (f3x dpdv)) (Float2 (f3y dpdu) (f3y dpdv)),
                             Float2 (f3x px - f3x pos) (f3y px - f3y pos),
                             Float2 (f3x py - f3x pos) (f3y py - f3y pos)));
                    outputs = outputs\<lparr> sd_duvdx :=
                                (case SolveLinearSystem lib A Bx of Some r \<Rightarrow> r | None \<Rightarrow> Zero2) \<rparr>;
                    outputs = outputs\<lparr> sd_duvdy :=
                                (case SolveLinearSystem lib A By of Some r \<Rightarrow> r | None \<Rightarrow> Zero2) \<rparr>
                in outputs)"

section \<open>Kernel context\<close>

record RayCastCameraSettings =
  cam_position :: float3
  cam_forward :: float3
  cam_imagePlaneDistance :: float
  cam_viewportWidth :: float
  cam_viewportHeight :: float

text \<open>
  The kernel context: the scene tables behind \<^verbatim>\<open>sceneData->scene\<close>, the camera, the
  worker's private image (a raw pointer, indexed without a bounds check), the random
  number generator's state (of an arbitrary type \<open>'r\<close>) and the maximal path length.
\<close>

record 'r KernelContext =
  ctx_scene :: SceneResource
  ctx_camera :: RayCastCameraSettings
  ctx_imageData :: "uint32 \<Rightarrow> float3"
  ctx_imageWidth :: uint32
  ctx_imageHeight :: uint32
  ctx_twister :: 'r
  ctx_maxPathLength :: uint32

section \<open>CalculateSurfaceParams\<close>

text \<open>
  The vertex \<open>k\<close> (0, 1 or 2) of the hit triangle, the material of its first vertex, and
  the barycentric weights \<open>a0\<close>, \<open>a1\<close>, \<open>a2\<close>, as the first lines of
  \<^verbatim>\<open>CalculateSurfaceParams\<close> compute them.
\<close>

definition HitVertex :: "SceneResource \<Rightarrow> HitParameters \<Rightarrow> uint32 \<Rightarrow> VertexAuxiliaryData" where
  "HitVertex scene hit k = scene_vertexData scene (scene_indices scene (3 * hit_primId hit + k))"

definition HitMaterial :: "SceneResource \<Rightarrow> HitParameters \<Rightarrow> Material" where
  "HitMaterial scene hit = scene_materials scene (vad_materialIndex (HitVertex scene hit 0))"

definition vad_position :: "VertexAuxiliaryData \<Rightarrow> float3" where
  "vad_position v = Float3 (vad_px v) (vad_py v) (vad_pz v)"

definition vad_normal :: "VertexAuxiliaryData \<Rightarrow> float3" where
  "vad_normal v = Float3 (vad_nx v) (vad_ny v) (vad_nz v)"

definition vad_tangent :: "VertexAuxiliaryData \<Rightarrow> float3" where
  "vad_tangent v = Float3 (vad_tx v) (vad_ty v) (vad_tz v)"

definition vad_bitangent :: "VertexAuxiliaryData \<Rightarrow> float3" where
  "vad_bitangent v = scaleR3 (Cross (vad_normal v) (vad_tangent v)) (vad_bh v)"

definition vad_uv :: "VertexAuxiliaryData \<Rightarrow> float2" where
  "vad_uv v = Float2 (vad_u v) (vad_v v)"

definition BaryA0 :: "HitParameters \<Rightarrow> float" where
  "BaryA0 hit = Saturate (1 - (f2x (hit_baryCoords hit) + f2y (hit_baryCoords hit)))"

definition BaryA1 :: "HitParameters \<Rightarrow> float" where
  "BaryA1 hit = f2x (hit_baryCoords hit)"

definition BaryA2 :: "HitParameters \<Rightarrow> float" where
  "BaryA2 hit = f2y (hit_baryCoords hit)"

text \<open>\<^verbatim>\<open>a0 * x0 + a1 * x1 + a2 * x2\<close> over the three vertices, for a float3 and a float2 attribute.\<close>

definition Interpolate3 ::
  "SceneResource \<Rightarrow> HitParameters \<Rightarrow> (VertexAuxiliaryData \<Rightarrow> float3) \<Rightarrow> float3" where
  "Interpolate3 scene hit attr =
     add3 (add3 (scale3 (BaryA0 hit) (attr (HitVertex scene hit 0)))
                (scale3 (BaryA1 hit) (attr (HitVertex scene hit 1))))
          (scale3 (BaryA2 hit) (attr (HitVertex scene hit 2)))"

definition Interpolate2 ::
  "SceneResource \<Rightarrow> HitParameters \<Rightarrow> (VertexAuxiliaryData \<Rightarrow> float2) \<Rightarrow> float2" where
  "Interpolate2 scene hit attr =
     add2 (add2 (scale2 (BaryA0 hit) (attr (HitVertex scene hit 0)))
                (scale2 (BaryA1 hit) (attr (HitVertex scene hit 1))))
          (scale2 (BaryA2 hit) (attr (HitVertex scene hit 2)))"

text \<open>The interpolated, normalised shading normal \<^verbatim>\<open>n\<close>.\<close>

definition InterpolatedNormal :: "SceneResource \<Rightarrow> HitParameters \<Rightarrow> float3" where
  "InterpolatedNormal scene hit = Normalize (Interpolate3 scene hit vad_normal)"

text \<open>
  The partial derivatives of the triangle (the block guarded by
  \<^verbatim>\<open>canUseDifferentials || preserveDifferentials\<close>): it writes \<^verbatim>\<open>dpdu\<close>, \<^verbatim>\<open>dpdv\<close> and the
  normal derivatives of the surface.
\<close>

definition TrianglePartialDerivatives ::
  "ShadingLib \<Rightarrow> SceneResource \<Rightarrow> HitParameters \<Rightarrow> bool \<Rightarrow> SurfaceParameters \<Rightarrow> SurfaceParameters" where
  "TrianglePartialDerivatives lib scene hit preserveDifferentials surface =
     (let v0 = HitVertex scene hit 0; v1 = HitVertex scene hit 1; v2 = HitVertex scene hit 2;
          p0 = vad_position v0; p1 = vad_position v1; p2 = vad_position v2;
          n0 = vad_normal v0; n1 = vad_normal v1; n2 = vad_normal v2;
          duv02 = sub2 (vad_uv v0) (vad_uv v2);
          duv12 = sub2 (vad_uv v1) (vad_uv v2);
          determinant = f2x duv02 * f2y duv12 - f2y duv02 * f2x duv12;
          degenerateUV = (Absf determinant < SmallFloatEpsilon lib);
          surface =
            (if \<not> degenerateUV then
               let edge02 = sub3 p0 p2;
                   edge12 = sub3 p1 p2;
                   dn02 = sub3 n0 n2;
                   dn12 = sub3 n1 n2;
                   invDet = 1 / determinant;
                   surface = surface\<lparr> surf_dpdu :=
                     scaleR3 (sub3 (scale3 (f2y duv12) edge02) (scale3 (f2y duv02) edge12)) invDet \<rparr>;
                   surface = surface\<lparr> surf_dpdv :=
                     scaleR3 (add3 (scale3 (- f2x duv12) edge02) (scale3 (f2x duv02) edge12)) invDet \<rparr>
               in if preserveDifferentials then
                    surface\<lparr> surf_differentials := (surf_differentials surface)
                      \<lparr> sd_dndu :=
                          scaleR3 (sub3 (scale3 (f2y duv12) dn02) (scale3 (f2y duv02) dn12)) invDet,
                        sd_dndv :=
                          scaleR3 (add3 (scale3 (- f2x duv12) dn02) (scale3 (f2x duv02) dn12)) invDet \<rparr> \<rparr>
                  else surface
             else surface)
      in if degenerateUV \<or> LengthSquared (Cross (surf_dpdu surface) (surf_dpdv surface)) = 0 then
           let (dpdu, dpdv) =
                 MakeOrthogonalCoordinateSystem lib (Normalize (Cross (sub3 p2 p0) (sub3 p1 p0)))
           in surface\<lparr> surf_dpdu := dpdu, surf_dpdv := dpdv,
                       surf_differentials := (surf_differentials surface)
                         \<lparr> sd_dndu := Zero3, sd_dndv := Zero3 \<rparr> \<rparr>
         else surface)"

text \<open>
  \<^verbatim>\<open>CalculateSurfaceParams\<close> writes into the caller's \<^verbatim>\<open>surface\<close> and returns a bool: the
  result is \<open>None\<close> for \<^verbatim>\<open>return false\<close> (nothing has been written then) and the written
  surface for \<^verbatim>\<open>return true\<close>. Fields it does not assign keep the caller's value.
\<close>

definition CalculateSurfaceParams ::
  "ShadingLib \<Rightarrow> 'r KernelContext \<Rightarrow> HitParameters \<Rightarrow> SurfaceParameters \<Rightarrow> SurfaceParameters option" where
  "CalculateSurfaceParams lib context hit surface =
     (let scene = ctx_scene context;
          material = HitMaterial scene hit;
          a0 = BaryA0 hit;
          a1 = BaryA1 hit;
          a2 = BaryA2 hit;
          t = Normalize (Interpolate3 scene hit vad_tangent);
          b = Normalize (Interpolate3 scene hit vad_bitangent);
          n = InterpolatedNormal scene hit
      in if Dot n (hit_viewDirection hit) < 0 \<and> (mat_flags material AND eTransparent lib) = 0
         then None
         else Some (
           let rayHasDifferentials = (f3x (hit_rxDirection hit) \<noteq> 0 \<or> f3y (hit_rxDirection hit) \<noteq> 0);
               surface = surface\<lparr> surf_tangentToWorld := MakeFloat3x3 t n b \<rparr>;
               surface = surface\<lparr> surf_worldToTangent := MatrixTranspose (surf_tangentToWorld surface) \<rparr>;
               surface = surface\<lparr> surf_rxOrigin := hit_rxOrigin hit \<rparr>;
               surface = surface\<lparr> surf_rxDirection := hit_rxDirection hit \<rparr>;
               surface = surface\<lparr> surf_ryOrigin := hit_ryOrigin hit \<rparr>;
               surface = surface\<lparr> surf_ryDirection := hit_ryDirection hit \<rparr>;
               surface = surface\<lparr> surf_geometricNormal := n \<rparr>;
               surface = surface\<lparr> surf_position := hit_position hit \<rparr>;
               surface = surface\<lparr> surf_error := hit_error hit \<rparr>;
               surface = surface\<lparr> surf_materialFlags := mat_flags material \<rparr>;
               canUseDifferentials =
                 ((mat_flags material AND eHasTextures lib) \<noteq> 0 \<and> rayHasDifferentials);
               preserveDifferentials =
                 ((mat_flags material AND ePreserveRayDifferentials lib) \<noteq> 0 \<and> rayHasDifferentials);
               surface =
                 (if canUseDifferentials \<or> preserveDifferentials
                  then TrianglePartialDerivatives lib scene hit preserveDifferentials surface
                  else surface);
               surface =
                 (if canUseDifferentials
                  then surface\<lparr> surf_differentials :=
                         CalculateSurfaceDifferentials lib hit (surf_geometricNormal surface)
                           (surf_dpdu surface) (surf_dpdv surface) (surf_differentials surface) \<rparr>
                  else surface);
               uvs = Interpolate2 scene hit vad_uv;
               surface = surface\<lparr> surf_emissive :=
                 SampleTextureFloat3 lib surface scene uvs (mat_emissiveTextureIndex material)
                   False rayHasDifferentials Zero3 \<rparr>;
               surface = surface\<lparr> surf_albedo :=
                 mul3 (mat_albedo material)
                   (SampleTextureFloat3 lib surface scene uvs (mat_albedoTextureIndex material)
                      False rayHasDifferentials One3) \<rparr>;
               surface = surface\<lparr> surf_specularColor :=
                 SampleTextureFloat3 lib surface scene uvs (mat_specularTextureIndex material)
                   False rayHasDifferentials (surf_albedo surface) \<rparr>;
               surface = surface\<lparr> surf_roughness :=
                 mat_roughness material *
                   SampleTextureFloat lib surface scene uvs (mat_roughnessTextureIndex material)
                     False rayHasDifferentials 1 \<rparr>;
               surface = surface\<lparr> surf_metalness :=
                 mat_metalness material *
                   SampleTextureFloat lib surface scene uvs (mat_metalnessTextureIndex material)
                     False rayHasDifferentials 1 \<rparr>;
               surface = surface\<lparr> surf_shader := mat_shader material \<rparr>;
               surface = surface\<lparr> surf_ior := mat_ior material \<rparr>;
               normalToWorld = MakeFloat3x3 t (neg3 b) n;
               perturbNormal =
                 SampleTextureNormal lib surface scene uvs (mat_normalTextureIndex material)
                   rayHasDifferentials;
               surface = surface\<lparr> surf_perturbedNormal :=
                 Normalize (MatrixMultiply perturbNormal normalToWorld) \<rparr>
           in surface))"

section \<open>VCM integrator: data\<close>

text \<open>The compile-time constants of the VCM integrator.\<close>

definition MaxBounceCount :: uint32 where
  "MaxBounceCount = 10"

definition IntegrationSeconds :: float where
  "IntegrationSeconds = 30"

definition VcmRadiusFactor :: float where
  "VcmRadiusFactor = 5 / 1000"

definition VcmRadiusAlpha :: float where
  "VcmRadiusAlpha = 75 / 100"

definition Pi :: float where
  "Pi = pi"

text \<open>\<^verbatim>\<open>FloatMax_\<close> (the largest finite float) and embree's \<^verbatim>\<open>RTC_INVALID_GEOMETRY_ID\<close>.\<close>

definition FloatMax :: float where
  "FloatMax = 340282346638528859811704183484516925440"

definition RTC_INVALID_GEOMETRY_ID :: uint32 where
  "RTC_INVALID_GEOMETRY_ID = - 1"

record PathState =
  ps_position :: float3
  ps_direction :: float3
  ps_throughput :: float3
  ps_dVCM :: float
  ps_dVC :: float
  ps_dVM :: float
  ps_pathLength :: uint32
  ps_isAreaMeasure :: uint32

record VcmVertex =
  vtx_throughput :: float3
  vtx_pathLength :: uint32
  vtx_dVCM :: float
  vtx_dVC :: float
  vtx_dVM :: float
  vtx_surface :: SurfaceParameters

record Ray =
  ray_origin :: float3
  ray_direction :: float3
  ray_rxOrigin :: float3
  ray_rxDirection :: float3
  ray_ryOrigin :: float3
  ray_ryDirection :: float3
  ray_throughput :: float3
  ray_pixelIndex :: uint32
  ray_bounceCount :: uint32

record RTCRay =
  rtc_org :: float3
  rtc_dir :: float3
  rtc_tnear :: float
  rtc_tfar :: float

record RTCHit =
  rtc_geomID :: uint32
  rtc_primID :: uint32
  rtc_u :: float
  rtc_v :: float

record LightEmissionSample =
  les_position :: float3
  les_direction :: float3
  les_radiance :: float3
  les_emissionPdfW :: float
  les_directionPdfA :: float
  les_cosThetaLight :: float

record LightDirectSample =
  lds_direction :: float3
  lds_distance :: float
  lds_radiance :: float3
  lds_emissionPdfW :: float
  lds_directionPdfA :: float
  lds_cosThetaLight :: float

record BsdfSample =
  bs_wi :: float3
  bs_reflectance :: float3
  bs_forwardPdfW :: float
  bs_reversePdfW :: float

text \<open>
  The external collaborators of the integrator, taken as parameters: the ray-intersection
  engine (\<^verbatim>\<open>rtcIntersect1\<close> returns the ray and the hit it has written, \<^verbatim>\<open>rtcOccluded1\<close>
  the ray it has written), the image-based light, the BSDF module, the random number
  generator, the camera and the second overload of \<^verbatim>\<open>OffsetRayOrigin\<close> that also
  returns the bias distance. Whatever draws random numbers returns the generator's new
  state. \<^verbatim>\<open>SampleBsdfFunction\<close> is \<open>None\<close> when it returns false.
  \<open>UninitializedSurface\<close> is the content of a local \<^verbatim>\<open>SurfaceParameters surface;\<close> before
  \<^verbatim>\<open>CalculateSurfaceParams\<close> writes to it.
\<close>

record 'r VcmLib =
  shading :: ShadingLib
  MakeRay :: "float3 \<Rightarrow> float3 \<Rightarrow> float3 \<Rightarrow> uint32 \<Rightarrow> uint32 \<Rightarrow> Ray"
  rtcIntersect1 :: "RTCRay \<Rightarrow> RTCRay \<times> RTCHit"
  rtcOccluded1 :: "RTCRay \<Rightarrow> RTCRay"
  EmitIblLightSample :: "'r KernelContext \<Rightarrow> LightEmissionSample \<times> 'r"
  DirectIblLightSample :: "'r KernelContext \<Rightarrow> LightDirectSample \<times> 'r"
  DirectIblSample :: "'r KernelContext \<Rightarrow> float3 \<Rightarrow> float3 \<times> float \<times> float"
  EvaluateBsdf :: "SurfaceParameters \<Rightarrow> float3 \<Rightarrow> float3 \<Rightarrow> float3 \<times> float \<times> float"
  SampleBsdfFunction :: "'r KernelContext \<Rightarrow> SurfaceParameters \<Rightarrow> float3 \<Rightarrow> BsdfSample option \<times> 'r"
  MersenneTwisterFloat :: "'r \<Rightarrow> float \<times> 'r"
  JitteredCameraRay :: "RayCastCameraSettings \<Rightarrow> 'r \<Rightarrow> uint32 \<Rightarrow> float \<Rightarrow> float \<Rightarrow> Ray \<times> 'r"
  WorldToImage :: "RayCastCameraSettings \<Rightarrow> float3 \<Rightarrow> int \<times> int"
  OffsetRayOriginBias :: "SurfaceParameters \<Rightarrow> float3 \<Rightarrow> float \<Rightarrow> float3 \<times> float"
  UninitializedSurface :: SurfaceParameters

text \<open>\<^verbatim>\<open>v.x == 0 && v.y == 0 && v.z == 0\<close>\<close>

definition IsZero3 :: "float3 \<Rightarrow> bool" where
  "IsZero3 v = (f3x v = 0 \<and> f3y v = 0 \<and> f3z v = 0)"

section \<open>VCM integrator: rays\<close>

definition OcclusionRay :: "'r VcmLib \<Rightarrow> SurfaceParameters \<Rightarrow> float3 \<Rightarrow> float \<Rightarrow> bool" where
  "OcclusionRay lib surface direction distance =
     (let origin = OffsetRayOrigin surface direction (1 / 10);
          ray = \<lparr> rtc_org = origin, rtc_dir = direction,
                  rtc_tnear = surf_error surface, rtc_tfar = distance \<rparr>;
          ray = rtcOccluded1 lib ray
      in rtc_tfar ray \<ge> 0)"

definition VcOcclusionRay :: "'r VcmLib \<Rightarrow> SurfaceParameters \<Rightarrow> float3 \<Rightarrow> float \<Rightarrow> bool" where
  "VcOcclusionRay lib surface direction distance =
     (let (origin, biasDistance) = OffsetRayOriginBias lib surface direction (1 / 10);
          ray = \<lparr> rtc_org = origin, rtc_dir = direction,
                  rtc_tnear = surf_error surface,
                  rtc_tfar = distance - 16 * Absf biasDistance \<rparr>;
          ray = rtcOccluded1 lib ray
      in rtc_tfar ray \<ge> 0)"

text \<open>\<^verbatim>\<open>RayPick\<close> writes every field of the hit and returns true, or returns false (\<open>None\<close>).\<close>

definition RayPick :: "'r VcmLib \<Rightarrow> Ray \<Rightarrow> HitParameters option" where
  "RayPick lib ray =
     (let rayhit_ray = \<lparr> rtc_org = ray_origin ray, rtc_dir = ray_direction ray,
                         rtc_tnear = 1 / 100000, rtc_tfar = FloatMax \<rparr>;
          (rayhit_ray, rayhit_hit) = rtcIntersect1 lib rayhit_ray
      in if rtc_geomID rayhit_hit = - 1 then None
         else
           let position =
                 Float3 (f3x (rtc_org rayhit_ray) + rtc_tfar rayhit_ray * f3x (ray_direction ray))
                        (f3y (rtc_org rayhit_ray) + rtc_tfar rayhit_ray * f3y (ray_direction ray))
                        (f3z (rtc_org rayhit_ray) + rtc_tfar rayhit_ray * f3z (ray_direction ray));
               kErr = 32 * (119209 / 1000000000000)
           in Some \<lparr> hit_position = position,
                     hit_baryCoords = Float2 (rtc_u rayhit_hit) (rtc_v rayhit_hit),
                     hit_primId = rtc_primID rayhit_hit,
                     hit_error = kErr * max (max (Absf (f3x position)) (Absf (f3y position)))
                                           (max (Absf (f3z position)) (rtc_tfar rayhit_ray)),
                     hit_viewDirection = neg3 (ray_direction ray),
                     hit_rxOrigin = ray_rxOrigin ray,
                     hit_rxDirection = ray_rxDirection ray,
                     hit_ryOrigin = ray_ryOrigin ray,
                     hit_ryDirection = ray_ryDirection ray,
                     hit_pixelIndex = ray_pixelIndex ray,
                     hit_throughput = ray_throughput ray,
                     hit_bounceCount = ray_bounceCount ray \<rparr>)"

section \<open>VCM integrator: subpath generation\<close>

text \<open>
  \<^verbatim>\<open>GenerateLightSample\<close> and \<^verbatim>\<open>GenerateCameraSample\<close> write every field of the path
  state; they return it with the context, whose random number generator has advanced.
\<close>

definition GenerateLightSample :: "'r VcmLib \<Rightarrow> 'r KernelContext \<Rightarrow> float \<Rightarrow> 'r KernelContext \<times> PathState" where
  "GenerateLightSample lib context vcWeight =
     (let lightSampleWeight = 1;
          (sample, twister) = EmitIblLightSample lib context;
          context = context\<lparr> ctx_twister := twister \<rparr>;
          sample = sample\<lparr> les_emissionPdfW := les_emissionPdfW sample * lightSampleWeight \<rparr>;
          sample = sample\<lparr> les_directionPdfA := les_directionPdfA sample * lightSampleWeight \<rparr>;
          dVC = les_cosThetaLight sample / les_emissionPdfW sample
      in (context,
          \<lparr> ps_position = les_position sample,
            ps_direction = les_direction sample,
            ps_throughput = scaleR3 (les_radiance sample) (1 / les_emissionPdfW sample),
            ps_dVCM = les_directionPdfA sample / les_emissionPdfW sample,
            ps_dVC = dVC,
            ps_dVM = dVC * vcWeight,
            ps_pathLength = 1,
            ps_isAreaMeasure = 0 \<rparr>))"

definition GenerateCameraSample ::
  "'r VcmLib \<Rightarrow> 'r KernelContext \<Rightarrow> uint32 \<Rightarrow> uint32 \<Rightarrow> float \<Rightarrow> 'r KernelContext \<times> PathState" where
  "GenerateCameraSample lib context x y lightPathCount =
     (let camera = ctx_camera context;
          (cameraRay, twister) =
             JitteredCameraRay lib camera (ctx_twister context) 0 (real (unat x)) (real (unat y));
          context = context\<lparr> ctx_twister := twister \<rparr>;
          cosThetaCamera = Dot (cam_forward camera) (ray_direction cameraRay);
          imagePointToCameraDistance = cam_imagePlaneDistance camera / cosThetaCamera;
          imageToSolidAngle =
             imagePointToCameraDistance * imagePointToCameraDistance / cosThetaCamera
      in (context,
          \<lparr> ps_position = ray_origin cameraRay,
            ps_direction = ray_direction cameraRay,
            ps_throughput = One3,
            ps_dVCM = lightPathCount / imageToSolidAngle,
            ps_dVC = 0,
            ps_dVM = 0,
            ps_pathLength = 1,
            ps_isAreaMeasure = 1 \<rparr>))"

section \<open>VCM integrator: connections\<close>

text \<open>\<^verbatim>\<open>ConnectLightPathToCamera\<close> adds a splat to the worker's image; the result is the context.\<close>

definition ConnectLightPathToCamera ::
  "'r VcmLib \<Rightarrow> 'r KernelContext \<Rightarrow> PathState \<Rightarrow> SurfaceParameters \<Rightarrow> float \<Rightarrow> float
     \<Rightarrow> 'r KernelContext" where
  "ConnectLightPathToCamera lib context state surface vmWeight lightPathCount =
     (let camera = ctx_camera context;
          toPosition = sub3 (surf_position surface) (cam_position camera)
      in if Dot (cam_forward camera) toPosition \<le> 0 then context
         else
           let (imagePosition_x, imagePosition_y) = WorldToImage lib camera (surf_position surface)
           in if imagePosition_x < 0 \<or> real_of_int imagePosition_x \<ge> cam_viewportWidth camera
                 \<or> imagePosition_y < 0 \<or> real_of_int imagePosition_y \<ge> cam_viewportHeight camera
              then context
              else
                let distance = Length toPosition;
                    toPosition = scale3 (1 / distance) toPosition;
                    (bsdf, bsdfForwardPdf, bsdfReversePdf) =
                       EvaluateBsdf lib surface (neg3 (ps_direction state)) (neg3 toPosition)
                in if IsZero3 bsdf then context
                   else
                     let cosThetaSurface = Absf (Dot (surf_geometricNormal surface) (neg3 toPosition));
                         cosThetaCamera = Dot (cam_forward camera) toPosition;
                         imagePointToCameraDistance = cam_imagePlaneDistance camera / cosThetaCamera;
                         imageToSolidAngle =
                            imagePointToCameraDistance * imagePointToCameraDistance / cosThetaCamera;
                         imageToSurface = imageToSolidAngle * cosThetaCamera;
                         surfaceToImage = 1 / imageToSurface;
                         cameraPdfA = imageToSurface;
                         lightPartialWeight =
                            (cameraPdfA / lightPathCount)
                              * (vmWeight + ps_dVCM state + ps_dVC state * bsdfReversePdf);
                         misWeight = 1 / (lightPartialWeight + 1);
                         pathContribution =
                            scaleR3 (mul3 (scale3 misWeight (ps_throughput state)) bsdf)
                                    (1 / (lightPathCount * surfaceToImage))
                     in if IsZero3 pathContribution then context
                        else if OcclusionRay lib surface (neg3 toPosition) distance then
                          let index = (word_of_int imagePosition_y :: uint32) * ctx_imageWidth context
                                        + word_of_int imagePosition_x
                          in context\<lparr> ctx_imageData := (ctx_imageData context)
                                 (index := add3 (ctx_imageData context index) pathContribution) \<rparr>
                        else context)"

definition ConnectToSkyLight :: "'r VcmLib \<Rightarrow> 'r KernelContext \<Rightarrow> PathState \<Rightarrow> float3" where
  "ConnectToSkyLight lib context state =
     (let (radiance, directPdfA, emissionPdfW) = DirectIblSample lib context (ps_direction state)
      in if ps_pathLength state = 1 then radiance
         else
           let cameraWeight = directPdfA * ps_dVCM state + emissionPdfW * ps_dVC state;
               misWeight = 1 / (1 + cameraWeight)
           in scale3 misWeight radiance)"

definition ConnectCameraPathToLight ::
  "'r VcmLib \<Rightarrow> 'r KernelContext \<Rightarrow> PathState \<Rightarrow> SurfaceParameters \<Rightarrow> float
     \<Rightarrow> 'r KernelContext \<times> float3" where
  "ConnectCameraPathToLight lib context state surface vmWeight =
     (let lightSampleWeight = 1;
          (r0, twister) = MersenneTwisterFloat lib (ctx_twister context);
          (r1, twister) = MersenneTwisterFloat lib twister;
          context = context\<lparr> ctx_twister := twister \<rparr>;
          (sample, twister) = DirectIblLightSample lib context;
          context = context\<lparr> ctx_twister := twister \<rparr>;
          sample = sample\<lparr> lds_directionPdfA := lds_directionPdfA sample * lightSampleWeight \<rparr>;
          (bsdf, bsdfForwardPdfW, bsdfReversePdfW) =
             EvaluateBsdf lib surface (neg3 (ps_direction state)) (lds_direction sample)
      in if IsZero3 bsdf then (context, Zero3)
         else
           let cosThetaSurface = Absf (Dot (surf_perturbedNormal surface) (lds_direction sample));
               lightWeight = bsdfForwardPdfW / lds_directionPdfA sample;
               cameraWeight =
                  (lds_emissionPdfW sample * cosThetaSurface
                     / (lds_directionPdfA sample * lds_cosThetaLight sample))
                    * (vmWeight + ps_dVCM state + ps_dVC state * bsdfReversePdfW);
               misWeight = 1 / (lightWeight + 1 + cameraWeight);
               pathContribution =
                  mul3 (scale3 (misWeight * cosThetaSurface / lds_directionPdfA sample)
                               (lds_radiance sample)) bsdf
           in if IsZero3 pathContribution then (context, Zero3)
              else if OcclusionRay lib surface (lds_direction sample) (lds_distance sample)
              then (context, pathContribution)
              else (context, Zero3))"

text \<open>
  \<^verbatim>\<open>SampleBsdfScattering\<close> updates the path state in place and returns a bool; the result
  is the bool, the context (the generator has advanced) and the path state.
\<close>

definition SampleBsdfScattering ::
  "'r VcmLib \<Rightarrow> 'r KernelContext \<Rightarrow> SurfaceParameters \<Rightarrow> float \<Rightarrow> float \<Rightarrow> PathState
     \<Rightarrow> bool \<times> 'r KernelContext \<times> PathState" where
  "SampleBsdfScattering lib context surface vmWeight vcWeight pathState =
     (let (result, twister) = SampleBsdfFunction lib context surface (neg3 (ps_direction pathState));
          context = context\<lparr> ctx_twister := twister \<rparr>
      in case result of
           None \<Rightarrow> (False, context, pathState)
         | Some sample \<Rightarrow>
             if IsZero3 (bs_reflectance sample) then (False, context, pathState)
             else
               let cosThetaBsdf = Absf (Dot (bs_wi sample) (surf_perturbedNormal surface));
                   pathState = pathState\<lparr> ps_position := surf_position surface \<rparr>;
                   pathState = pathState\<lparr> ps_throughput :=
                                 mul3 (ps_throughput pathState) (bs_reflectance sample) \<rparr>;
                   pathState = pathState\<lparr> ps_dVC :=
                                 (cosThetaBsdf / bs_forwardPdfW sample)
                                   * (ps_dVC pathState * bs_reversePdfW sample
                                        + ps_dVCM pathState + vmWeight) \<rparr>;
                   pathState = pathState\<lparr> ps_dVM :=
                                 (cosThetaBsdf / bs_forwardPdfW sample)
                                   * (ps_dVM pathState * bs_reversePdfW sample
                                        + ps_dVCM pathState * vcWeight + 1) \<rparr>;
                   pathState = pathState\<lparr> ps_dVCM := 1 / bs_forwardPdfW sample \<rparr>;
                   pathState = pathState\<lparr> ps_direction := bs_wi sample \<rparr>;
                   pathState = pathState\<lparr> ps_pathLength := ps_pathLength pathState + 1 \<rparr>
               in (True, context, pathState))"

text \<open>
  \<^verbatim>\<open>ConnectPathVertices\<close> has six return statements. The traced function returns which of
  them is taken together with the value returned; \<^verbatim>\<open>ConnectPathVertices\<close> is the value.
\<close>

datatype ConnectExit =
  CameraBsdfIsZero
  | LightBsdfIsZero
  | GeometryTermIsNegative
  | PathContributionIsZero
  | Unoccluded
  | Occluded

definition ConnectPathVertices_traced ::
  "'r VcmLib \<Rightarrow> 'r KernelContext \<Rightarrow> SurfaceParameters \<Rightarrow> PathState \<Rightarrow> VcmVertex \<Rightarrow> float
     \<Rightarrow> ConnectExit \<times> float3" where
  "ConnectPathVertices_traced lib context surface cameraState lightVertex vmWeight =
     (let direction = sub3 (surf_position (vtx_surface lightVertex)) (surf_position surface);
          distanceSquared = LengthSquared direction;
          distance = Sqrtf distanceSquared;
          direction = scale3 (1 / distance) direction;
          (cameraBsdf, cameraBsdfForwardPdfW, cameraBsdfReversePdfW) =
             EvaluateBsdf lib surface (neg3 (ps_direction cameraState)) direction
      in if IsZero3 cameraBsdf then (CameraBsdfIsZero, Zero3)
         else
           let (lightBsdf, lightBsdfForwardPdfW, lightBsdfReversePdfW) =
                  EvaluateBsdf lib (vtx_surface lightVertex) (neg3 direction)
                    (surf_view (vtx_surface lightVertex))
           in if IsZero3 lightBsdf then (LightBsdfIsZero, Zero3)
              else
                let cosThetaCamera = Absf (Dot direction (surf_perturbedNormal surface));
                    cosThetaLight =
                       Absf (Dot (neg3 direction) (surf_perturbedNormal (vtx_surface lightVertex)));
                    geometryTerm = cosThetaLight * cosThetaCamera / distanceSquared
                in if geometryTerm < 0 then (GeometryTermIsNegative, Zero3)
                   else
                     let cameraBsdfPdfA = cameraBsdfForwardPdfW * Absf cosThetaLight / distanceSquared;
                         lightBsdfPdfA = lightBsdfForwardPdfW * Absf cosThetaCamera / distanceSquared;
                         lightWeight =
                            cameraBsdfPdfA
                              * (vmWeight + vtx_dVCM lightVertex
                                   + vtx_dVC lightVertex * lightBsdfReversePdfW);
                         cameraWeight =
                            lightBsdfPdfA
                              * (vmWeight + ps_dVCM cameraState
                                   + ps_dVC cameraState * cameraBsdfReversePdfW);
                         misWeight = 1 / (lightWeight + 1 + cameraWeight);
                         pathContribution =
                            mul3 (scale3 (misWeight * geometryTerm) cameraBsdf) lightBsdf
                     in if IsZero3 pathContribution then (PathContributionIsZero, Zero3)
                        else if VcOcclusionRay lib surface direction distance
                        then (Unoccluded, pathContribution)
                        else (Occluded, Zero3))"

definition ConnectPathVertices ::
  "'r VcmLib \<Rightarrow> 'r KernelContext \<Rightarrow> SurfaceParameters \<Rightarrow> PathState \<Rightarrow> VcmVertex \<Rightarrow> float \<Rightarrow> float3" where
  "ConnectPathVertices lib context surface cameraState lightVertex vmWeight =
     snd (ConnectPathVertices_traced lib context surface cameraState lightVertex vmWeight)"


section \<open>VCM integrator: vertex merging\<close>

record 'r VertexMergingCallbackStruct =
  vm_context :: "'r KernelContext"
  vm_surface :: SurfaceParameters
  vm_pathVertices :: "VcmVertex list"
  vm_cameraState :: PathState
  vm_vcWeight :: float
  vm_result :: float3

text \<open>
  The callback of the hash grid search. \<^verbatim>\<open>GetData()[vertexIndex]\<close> is a raw read of the
  vertex array; the debug assertions against NaN have no counterpart in exact arithmetic.
\<close>

definition MergeVertices ::
  "'r VcmLib \<Rightarrow> uint32 \<Rightarrow> 'r VertexMergingCallbackStruct \<Rightarrow> 'r VertexMergingCallbackStruct" where
  "MergeVertices lib vertexIndex vmData =
     (let context = vm_context vmData;
          surface = vm_surface vmData;
          cameraState = vm_cameraState vmData;
          lightVertex = vm_pathVertices vmData ! unat vertexIndex
      in if ps_pathLength cameraState + vtx_pathLength lightVertex > ctx_maxPathLength context
         then vmData
         else
           let (bsdf, bsdfForwardPdfW, bsdfReversePdfW) =
                  EvaluateBsdf lib surface (neg3 (ps_direction cameraState))
                    (surf_view (vtx_surface lightVertex))
           in if IsZero3 bsdf then vmData
              else
                let lightWeight =
                       vtx_dVCM lightVertex * vm_vcWeight vmData
                         + vtx_dVM lightVertex * bsdfForwardPdfW;
                    cameraWeight =
                       ps_dVCM cameraState * vm_vcWeight vmData
                         + ps_dVM cameraState * bsdfReversePdfW;
                    misWeight = 1 / (lightWeight + 1 + cameraWeight)
                in vmData\<lparr> vm_result :=
                     add3 (vm_result vmData)
                          (mul3 (scale3 misWeight bsdf) (vtx_throughput lightVertex)) \<rparr>)"

text \<open>
  The hash grid (GeometryLib/HashGrid.h) is external: \<^verbatim>\<open>BuildHashGrid\<close> returns the grid
  it has built in place, and \<^verbatim>\<open>SearchHashGrid\<close> is represented by the sequence of vertex
  indices it calls the callback with.
\<close>

record 'h HashGridLib =
  BuildHashGrid :: "'h \<Rightarrow> uint32 \<Rightarrow> float \<Rightarrow> float3 list \<Rightarrow> 'h"
  SearchHashGrid :: "'h \<Rightarrow> float3 list \<Rightarrow> float3 \<Rightarrow> uint32 list"

section \<open>VCM integrator: one pass\<close>

text \<open>
  The arrays of a pass. \<^verbatim>\<open>CArray\<close> (ContainersLib) is not under src: it is a list here,
  \<^verbatim>\<open>Add\<close> appends, \<^verbatim>\<open>Clear\<close> empties and \<^verbatim>\<open>Length()\<close> is the number of elements.
\<close>

record 'r VcmPass =
  vp_context :: "'r KernelContext"
  vp_pathVertices :: "VcmVertex list"
  vp_pathEnds :: "nat list"
  vp_deletememaybe :: "float3 list"

text \<open>
  The update of the MIS quantities at a new hit of the light subpath
  (\<^verbatim>\<open>connectionLengthSqr\<close>, \<^verbatim>\<open>absDotNL\<close> and the four assignments that follow them).
\<close>

definition UpdateMisAtLightHit :: "PathState \<Rightarrow> SurfaceParameters \<Rightarrow> HitParameters \<Rightarrow> PathState" where
  "UpdateMisAtLightHit state surface hit =
     (let connectionLengthSqr = LengthSquared (sub3 (ps_position state) (surf_position surface));
          absDotNL = Absf (Dot (surf_perturbedNormal surface) (hit_viewDirection hit));
          state = (if ps_pathLength state > 1 \<or> ps_isAreaMeasure state \<noteq> 0
                   then state\<lparr> ps_dVCM := ps_dVCM state * connectionLengthSqr \<rparr>
                   else state);
          state = state\<lparr> ps_dVCM := ps_dVCM state * (1 / absDotNL) \<rparr>;
          state = state\<lparr> ps_dVC := ps_dVC state * (1 / absDotNL) \<rparr>;
          state = state\<lparr> ps_dVM := ps_dVM state * (1 / absDotNL) \<rparr>
      in state)"

text \<open>The same update on the camera subpath.\<close>

definition UpdateMisAtCameraHit :: "PathState \<Rightarrow> SurfaceParameters \<Rightarrow> HitParameters \<Rightarrow> PathState" where
  "UpdateMisAtCameraHit cameraPathState surface hit =
     (let connectionLengthSqr =
             LengthSquared (sub3 (ps_position cameraPathState) (surf_position surface));
          absDotNL = Absf (Dot (surf_geometricNormal surface) (hit_viewDirection hit));
          cameraPathState = cameraPathState\<lparr> ps_dVCM := ps_dVCM cameraPathState * connectionLengthSqr \<rparr>;
          cameraPathState = cameraPathState\<lparr> ps_dVCM := ps_dVCM cameraPathState / absDotNL \<rparr>;
          cameraPathState = cameraPathState\<lparr> ps_dVC := ps_dVC cameraPathState / absDotNL \<rparr>;
          cameraPathState = cameraPathState\<lparr> ps_dVM := ps_dVM cameraPathState / absDotNL \<rparr>
      in cameraPathState)"

text \<open>
  The body of the light subpath's \<^verbatim>\<open>while\<close> loop. The bool is false when the body
  leaves the loop with \<^verbatim>\<open>break\<close>.
\<close>

definition LightPathBounce ::
  "'r VcmLib \<Rightarrow> float \<Rightarrow> float \<Rightarrow> uint32 \<Rightarrow> 'r VcmPass \<Rightarrow> PathState
     \<Rightarrow> bool \<times> 'r VcmPass \<times> PathState" where
  "LightPathBounce lib vmWeight vcWeight lightPathCount pass state =
     (let ray = MakeRay lib (ps_position state) (ps_direction state) (ps_throughput state) 0 0
      in case RayPick lib ray of
           None \<Rightarrow> (False, pass, state)
         | Some hit \<Rightarrow>
            (case CalculateSurfaceParams (shading lib) (vp_context pass) hit
                    (UninitializedSurface lib) of
               None \<Rightarrow> (False, pass, state)
             | Some surface \<Rightarrow>
                 let state = UpdateMisAtLightHit state surface hit;
                     vcmVertex =
                       \<lparr> vtx_throughput = ps_throughput state,
                         vtx_pathLength = ps_pathLength state,
                         vtx_dVCM = ps_dVCM state,
                         vtx_dVC = ps_dVC state,
                         vtx_dVM = ps_dVM state,
                         vtx_surface = surface \<rparr>;
                     pass = pass\<lparr> vp_pathVertices := vp_pathVertices pass @ [vcmVertex] \<rparr>;
                     pass = pass\<lparr> vp_deletememaybe :=
                                   vp_deletememaybe pass @ [surf_position surface] \<rparr>;
                     pass = pass\<lparr> vp_context :=
                                   ConnectLightPathToCamera lib (vp_context pass) state surface vmWeight
                                     (real (unat lightPathCount)) \<rparr>;
                     (scattered, context, state) =
                        SampleBsdfScattering lib (vp_context pass) surface vmWeight vcWeight state
                 in (scattered, pass\<lparr> vp_context := context \<rparr>, state)))"

subsection \<open>The light subpath loop\<close>

text \<open>
  What the loop's measure needs: a bounce that continues has incremented the path length
  and has left \<^verbatim>\<open>maxPathLength\<close> alone.
\<close>

lemma ConnectLightPathToCamera_maxPathLength:
  "ctx_maxPathLength (ConnectLightPathToCamera lib context state surface vmWeight lightPathCount)
     = ctx_maxPathLength context"
  by (simp add: ConnectLightPathToCamera_def Let_def split: prod.splits)

lemma SampleBsdfScattering_result:
  assumes "SampleBsdfScattering lib context surface vmWeight vcWeight pathState = (ok, context', pathState')"
  shows "ctx_maxPathLength context' = ctx_maxPathLength context"
    and "ok \<Longrightarrow> ps_pathLength pathState' = ps_pathLength pathState + 1"
    and "\<not> ok \<Longrightarrow> pathState' = pathState"
  using assms
  by (auto simp add: SampleBsdfScattering_def Let_def split: prod.splits option.splits if_splits)

lemma UpdateMisAtLightHit_pathLength:
  "ps_pathLength (UpdateMisAtLightHit state surface hit) = ps_pathLength state"
  by (simp add: UpdateMisAtLightHit_def Let_def)

lemma LightPathBounce_continue:
  assumes "LightPathBounce lib vmWeight vcWeight lightPathCount pass state = (True, pass', state')"
  shows "ps_pathLength state' = ps_pathLength state + 1"
    and "ctx_maxPathLength (vp_context pass') = ctx_maxPathLength (vp_context pass)"
proof -
  let ?ray = "MakeRay lib (ps_position state) (ps_direction state) (ps_throughput state) 0 0"
  from assms obtain hit where hit: "RayPick lib ?ray = Some hit"
    by (cases "RayPick lib ?ray") (auto simp: LightPathBounce_def Let_def)
  from assms hit obtain surface where
    surface: "CalculateSurfaceParams (shading lib) (vp_context pass) hit (UninitializedSurface lib) = Some surface"
    by (cases "CalculateSurfaceParams (shading lib) (vp_context pass) hit (UninitializedSurface lib)")
       (auto simp: LightPathBounce_def Let_def)
  let ?state1 = "UpdateMisAtLightHit state surface hit"
  let ?context1 = "ConnectLightPathToCamera lib (vp_context pass) ?state1 surface vmWeight
                     (real (unat lightPathCount))"
  obtain ok c s where sc: "SampleBsdfScattering lib ?context1 surface vmWeight vcWeight ?state1 = (ok, c, s)"
    by (cases "SampleBsdfScattering lib ?context1 surface vmWeight vcWeight ?state1") auto
  from assms hit surface sc have eq: "ok" "vp_context pass' = c" "state' = s"
    by (auto simp: LightPathBounce_def Let_def)
  from SampleBsdfScattering_result(2)[OF sc] eq
  show "ps_pathLength state' = ps_pathLength state + 1"
    by (simp add: UpdateMisAtLightHit_pathLength)
  from SampleBsdfScattering_result(1)[OF sc] eq
  show "ctx_maxPathLength (vp_context pass') = ctx_maxPathLength (vp_context pass)"
    by (simp add: ConnectLightPathToCamera_maxPathLength)
qed

lemma word_measure_step:
  fixes a m :: "'a::len word"
  assumes "a < m"
  shows "unat (m - (a + 1)) < unat (m - a)"
proof -
  from assms have nz: "m - a \<noteq> 0"
    by auto
  have eq: "m - (a + 1) = m - a - 1"
    by simp
  from nz have "unat (m - a - 1) = unat (m - a) - 1" and "0 < unat (m - a)"
    by (simp_all add: unat_minus_one unat_gt_0)
  then show ?thesis
    unfolding eq by linarith
qed

function LightSubpath ::
  "'r VcmLib \<Rightarrow> float \<Rightarrow> float \<Rightarrow> uint32 \<Rightarrow> 'r VcmPass \<Rightarrow> PathState \<Rightarrow> 'r VcmPass" where
  "LightSubpath lib vmWeight vcWeight lightPathCount pass state =
     (if ps_pathLength state + 2 < ctx_maxPathLength (vp_context pass) then
        (case LightPathBounce lib vmWeight vcWeight lightPathCount pass state of
           (continue, pass', state') \<Rightarrow>
             if continue then LightSubpath lib vmWeight vcWeight lightPathCount pass' state'
             else pass')
      else pass)"
  by pat_completeness auto
termination
proof (relation "measure (\<lambda>(lib, vmWeight, vcWeight, lightPathCount, pass, state).
          unat (ctx_maxPathLength (vp_context pass) - (ps_pathLength state + 2)))")
  show "wf (measure (\<lambda>(lib :: 'r VcmLib, vmWeight :: float, vcWeight :: float, lightPathCount :: uint32, pass :: 'r VcmPass, state).
          unat (ctx_maxPathLength (vp_context pass) - (ps_pathLength state + 2))))"
    by simp
next
  fix lib :: "'r VcmLib" and vmWeight vcWeight :: float and lightPathCount :: uint32
    and pass :: "'r VcmPass" and state x y xa ya
  assume c: "ps_pathLength state + 2 < ctx_maxPathLength (vp_context pass)"
    and b: "(x, y) = LightPathBounce lib vmWeight vcWeight lightPathCount pass state"
       "(xa, ya) = y" "x"
  from b have "LightPathBounce lib vmWeight vcWeight lightPathCount pass state = (True, xa, ya)"
    by (cases x) (auto simp: eq_commute)
  from LightPathBounce_continue[OF this] word_measure_step[OF c]
  show "((lib, vmWeight, vcWeight, lightPathCount, xa, ya), lib, vmWeight, vcWeight, lightPathCount, pass, state)
       \<in> measure (\<lambda>(lib, vmWeight, vcWeight, lightPathCount, pass, state).
          unat (ctx_maxPathLength (vp_context pass) - (ps_pathLength state + 2)))"
    by (simp add: add.commute add.left_commute)
qed

declare LightSubpath.simps [simp del]

text \<open>
  One light path (the body of the \<^verbatim>\<open>for\<close> loop over \<^verbatim>\<open>scan\<close>) and the loop itself, which
  runs \<^verbatim>\<open>lightPathCount\<close> times.
\<close>

definition LightPath :: "'r VcmLib \<Rightarrow> float \<Rightarrow> float \<Rightarrow> uint32 \<Rightarrow> 'r VcmPass \<Rightarrow> 'r VcmPass" where
  "LightPath lib vmWeight vcWeight lightPathCount pass =
     (let (context, state) = GenerateLightSample lib (vp_context pass) vcWeight;
          pass = pass\<lparr> vp_context := context \<rparr>;
          pass = LightSubpath lib vmWeight vcWeight lightPathCount pass state
      in pass\<lparr> vp_pathEnds := vp_pathEnds pass @ [length (vp_pathVertices pass)] \<rparr>)"

definition LightPaths :: "'r VcmLib \<Rightarrow> float \<Rightarrow> float \<Rightarrow> uint32 \<Rightarrow> 'r VcmPass \<Rightarrow> 'r VcmPass" where
  "LightPaths lib vmWeight vcWeight lightPathCount pass =
     fold (\<lambda>scan. LightPath lib vmWeight vcWeight lightPathCount) [0 ..< unat lightPathCount] pass"

subsection \<open>The camera subpath loop\<close>

text \<open>
  The vertex connection loop over the light vertices \<^verbatim>\<open>pathVertices[pathStart .. pathEnd)\<close>
  of the pixel's light path, given as the list of these vertices; it stops at the first
  vertex whose combined path would be too long.
\<close>

fun ConnectLightVertices ::
  "'r VcmLib \<Rightarrow> 'r KernelContext \<Rightarrow> SurfaceParameters \<Rightarrow> PathState \<Rightarrow> float \<Rightarrow> VcmVertex list
     \<Rightarrow> float3 \<Rightarrow> float3" where
  "ConnectLightVertices lib context surface cameraPathState vmWeight [] color = color"
| "ConnectLightVertices lib context surface cameraPathState vmWeight (lightVertex # rest) color =
     (if vtx_pathLength lightVertex + 1 + ps_pathLength cameraPathState > ctx_maxPathLength context
      then color
      else ConnectLightVertices lib context surface cameraPathState vmWeight rest
             (add3 color
                (mul3 (mul3 (ps_throughput cameraPathState) (vtx_throughput lightVertex))
                      (ConnectPathVertices lib context surface cameraPathState lightVertex vmWeight))))"

text \<open>
  The body of the camera subpath's \<^verbatim>\<open>while\<close> loop. The bool is false when the body
  leaves the loop with \<^verbatim>\<open>break\<close>.
\<close>

definition CameraPathBounce ::
  "'r VcmLib \<Rightarrow> 'h HashGridLib \<Rightarrow> float \<Rightarrow> float \<Rightarrow> float \<Rightarrow> uint32 \<Rightarrow> 'r VcmPass \<Rightarrow> 'h
     \<Rightarrow> 'r KernelContext \<Rightarrow> PathState \<Rightarrow> float3
     \<Rightarrow> bool \<times> 'r KernelContext \<times> PathState \<times> float3" where
  "CameraPathBounce lib grid vmWeight vcWeight vmNormalization index pass hashGrid
       context cameraPathState color =
     (let ray = MakeRay lib (ps_position cameraPathState) (ps_direction cameraPathState)
                  (ps_throughput cameraPathState) 0 0
      in case RayPick lib ray of
           None \<Rightarrow>
             let sample = mul3 (ps_throughput cameraPathState)
                               (ConnectToSkyLight lib context cameraPathState)
             in (False, context, cameraPathState, add3 color sample)
         | Some hit \<Rightarrow>
            (case CalculateSurfaceParams (shading lib) context hit (UninitializedSurface lib) of
               None \<Rightarrow> (False, context, cameraPathState, color)
             | Some surface \<Rightarrow>
                 let cameraPathState = UpdateMisAtCameraHit cameraPathState surface hit;
                     (context, color) =
                        (if ps_pathLength cameraPathState + 1 < ctx_maxPathLength context then
                           let (context, connection) =
                                  ConnectCameraPathToLight lib context cameraPathState surface vmWeight;
                               sample = mul3 (ps_throughput cameraPathState) connection
                           in (context, add3 color sample)
                         else (context, color));
                     pathStart = (if index = 0 then 0 else vp_pathEnds pass ! unat (index - 1));
                     pathEnd = vp_pathEnds pass ! unat index;
                     color = ConnectLightVertices lib context surface cameraPathState vmWeight
                               (take (pathEnd - pathStart) (drop pathStart (vp_pathVertices pass)))
                               color;
                     callbackData =
                       \<lparr> vm_context = context,
                         vm_surface = surface,
                         vm_pathVertices = vp_pathVertices pass,
                         vm_cameraState = cameraPathState,
                         vm_vcWeight = vcWeight,
                         vm_result = Zero3 \<rparr>;
                     callbackData =
                       fold (MergeVertices lib)
                            (SearchHashGrid grid hashGrid (vp_deletememaybe pass) (surf_position surface))
                            callbackData;
                     color = add3 color
                               (mul3 (scaleR3 (ps_throughput cameraPathState) vmNormalization)
                                     (vm_result callbackData));
                     (scattered, context, cameraPathState) =
                        SampleBsdfScattering lib context surface vmWeight vcWeight cameraPathState
                 in (scattered, context, cameraPathState, color)))"

text \<open>What the measure of the camera subpath's loop needs.\<close>

lemma UpdateMisAtCameraHit_pathLength:
  "ps_pathLength (UpdateMisAtCameraHit state surface hit) = ps_pathLength state"
  by (simp add: UpdateMisAtCameraHit_def Let_def)

lemma ConnectCameraPathToLight_maxPathLength:
  "ctx_maxPathLength (fst (ConnectCameraPathToLight lib context state surface vmWeight))
     = ctx_maxPathLength context"
  by (simp add: ConnectCameraPathToLight_def Let_def split: prod.splits)

lemma CameraPathBounce_continue:
  assumes "CameraPathBounce lib grid vmWeight vcWeight vmNormalization index pass hashGrid
             context state color = (True, context', state', color')"
  shows "ps_pathLength state' = ps_pathLength state + 1"
    and "ctx_maxPathLength context' = ctx_maxPathLength context"
proof -
  let ?ray = "MakeRay lib (ps_position state) (ps_direction state) (ps_throughput state) 0 0"
  from assms obtain hit where hit: "RayPick lib ?ray = Some hit"
    by (cases "RayPick lib ?ray") (auto simp: CameraPathBounce_def Let_def)
  from assms hit obtain surface where
    surface: "CalculateSurfaceParams (shading lib) context hit (UninitializedSurface lib) = Some surface"
    by (cases "CalculateSurfaceParams (shading lib) context hit (UninitializedSurface lib)")
       (auto simp: CameraPathBounce_def Let_def)
  let ?state1 = "UpdateMisAtCameraHit state surface hit"
  let ?context1 = "if ps_pathLength ?state1 + 1 < ctx_maxPathLength context
                   then fst (ConnectCameraPathToLight lib context ?state1 surface vmWeight)
                   else context"
  obtain ok c s where sc: "SampleBsdfScattering lib ?context1 surface vmWeight vcWeight ?state1 = (ok, c, s)"
    by (cases "SampleBsdfScattering lib ?context1 surface vmWeight vcWeight ?state1") auto
  from assms hit surface sc have eq: "ok" "context' = c" "state' = s"
    by (auto simp: CameraPathBounce_def Let_def split: prod.splits if_splits)
  from SampleBsdfScattering_result(2)[OF sc] eq
  show "ps_pathLength state' = ps_pathLength state + 1"
    by (simp add: UpdateMisAtCameraHit_pathLength)
  from SampleBsdfScattering_result(1)[OF sc] eq
  show "ctx_maxPathLength context' = ctx_maxPathLength context"
    by (simp add: ConnectCameraPathToLight_maxPathLength)
qed

function CameraSubpath ::
  "'r VcmLib \<Rightarrow> 'h HashGridLib \<Rightarrow> float \<Rightarrow> float \<Rightarrow> float \<Rightarrow> uint32 \<Rightarrow> 'r VcmPass \<Rightarrow> 'h
     \<Rightarrow> 'r KernelContext \<Rightarrow> PathState \<Rightarrow> float3 \<Rightarrow> 'r KernelContext \<times> float3" where
  "CameraSubpath lib grid vmWeight vcWeight vmNormalization index pass hashGrid
       context cameraPathState color =
     (if ps_pathLength cameraPathState < ctx_maxPathLength context then
        (case CameraPathBounce lib grid vmWeight vcWeight vmNormalization index pass hashGrid
                context cameraPathState color of
           (continue, context', cameraPathState', color') \<Rightarrow>
             if continue
             then CameraSubpath lib grid vmWeight vcWeight vmNormalization index pass hashGrid
                    context' cameraPathState' color'
             else (context', color'))
      else (context, color))"
  by pat_completeness auto
termination
proof (relation "measure (\<lambda>(lib, grid, vmWeight, vcWeight, vmNormalization, index, pass, hashGrid,
                             context, cameraPathState, color).
          unat (ctx_maxPathLength context - ps_pathLength cameraPathState))")
  show "wf (measure (\<lambda>(lib :: 'r VcmLib, grid :: 'h HashGridLib, vmWeight :: float, vcWeight :: float,
                       vmNormalization :: float, index :: uint32, pass :: 'r VcmPass, hashGrid :: 'h,
                       context :: 'r KernelContext, cameraPathState, color :: float3).
          unat (ctx_maxPathLength context - ps_pathLength cameraPathState)))"
    by simp
next
  fix lib :: "'r VcmLib" and grid :: "'h HashGridLib" and vmWeight vcWeight vmNormalization :: float
    and index :: uint32 and pass :: "'r VcmPass" and hashGrid :: 'h
    and ctx :: "'r KernelContext" and cameraPathState and color :: float3
    and x y xa ya xb yb
  assume c: "ps_pathLength cameraPathState < ctx_maxPathLength ctx"
    and b: "(x, y) = CameraPathBounce lib grid vmWeight vcWeight vmNormalization index pass hashGrid
                       ctx cameraPathState color"
       "(xa, ya) = y" "(xb, yb) = ya" "x"
  from b have "CameraPathBounce lib grid vmWeight vcWeight vmNormalization index pass hashGrid
                 ctx cameraPathState color = (True, xa, xb, yb)"
    by (cases x) (auto simp: eq_commute)
  from CameraPathBounce_continue[OF this] word_measure_step[OF c]
  show "((lib, grid, vmWeight, vcWeight, vmNormalization, index, pass, hashGrid, xa, xb, yb),
         lib, grid, vmWeight, vcWeight, vmNormalization, index, pass, hashGrid,
         ctx, cameraPathState, color)
       \<in> measure (\<lambda>(lib, grid, vmWeight, vcWeight, vmNormalization, index, pass, hashGrid,
                             context, cameraPathState, color).
          unat (ctx_maxPathLength context - ps_pathLength cameraPathState))"
    by simp
qed

declare CameraSubpath.simps [simp del]

text \<open>
  One pixel of the camera phase (the body of the loops over \<^verbatim>\<open>y\<close> and \<^verbatim>\<open>x\<close>; the
  debugging statement \<^verbatim>\<open>index = index\<close> does nothing) and the two loops.
\<close>

definition CameraPath ::
  "'r VcmLib \<Rightarrow> 'h HashGridLib \<Rightarrow> float \<Rightarrow> float \<Rightarrow> float \<Rightarrow> uint32 \<Rightarrow> uint32 \<Rightarrow> 'r VcmPass \<Rightarrow> 'h
     \<Rightarrow> uint32 \<Rightarrow> uint32 \<Rightarrow> 'r KernelContext \<Rightarrow> 'r KernelContext" where
  "CameraPath lib grid vmWeight vcWeight vmNormalization lightPathCount width pass hashGrid
       x y context =
     (let index = y * width + x;
          (context, cameraPathState) =
             GenerateCameraSample lib context x y (real (unat lightPathCount));
          color = Zero3;
          (context, color) =
             CameraSubpath lib grid vmWeight vcWeight vmNormalization index pass hashGrid
               context cameraPathState color
      in context\<lparr> ctx_imageData := (ctx_imageData context)
             (index := add3 (ctx_imageData context index) color) \<rparr>)"

definition CameraPaths ::
  "'r VcmLib \<Rightarrow> 'h HashGridLib \<Rightarrow> float \<Rightarrow> float \<Rightarrow> float \<Rightarrow> uint32 \<Rightarrow> uint32 \<Rightarrow> uint32
     \<Rightarrow> 'r VcmPass \<Rightarrow> 'h \<Rightarrow> 'r KernelContext \<Rightarrow> 'r KernelContext" where
  "CameraPaths lib grid vmWeight vcWeight vmNormalization lightPathCount width height pass hashGrid
       context =
     fold (\<lambda>y. fold (\<lambda>x. CameraPath lib grid vmWeight vcWeight vmNormalization lightPathCount
                             width pass hashGrid (of_nat x) (of_nat y))
                     [0 ..< unat width])
          [0 ..< unat height] context"

subsection \<open>VertexConnectionAndMerging\<close>

text \<open>
  The first half of \<^verbatim>\<open>VertexConnectionAndMerging\<close>, up to the end of the loop that
  generates the light paths: the arrays are emptied, the weights are computed and the
  light paths are traced. The result holds \<^verbatim>\<open>pathVertices\<close>, \<^verbatim>\<open>pathEnds\<close> and
  \<^verbatim>\<open>deletememaybe\<close> as the camera phase finds them.
\<close>

definition VertexConnectionAndMerging_lightPhase ::
  "'r VcmLib \<Rightarrow> 'r KernelContext \<Rightarrow> float \<Rightarrow> uint32 \<Rightarrow> uint32 \<Rightarrow> 'r VcmPass" where
  "VertexConnectionAndMerging_lightPhase lib context kernelRadius width height =
     (let lightPathCount = width * height;
          pass = \<lparr> vp_context = context, vp_pathVertices = [], vp_pathEnds = [],
                   vp_deletememaybe = [] \<rparr>;
          kernelRadiusSquare = kernelRadius * kernelRadius;
          vmWeight = Pi * kernelRadiusSquare * real (unat lightPathCount);
          vcWeight = 1 / vmWeight
      in LightPaths lib vmWeight vcWeight lightPathCount pass)"

text \<open>
  The whole function: it returns the context (image and generator), the vertex array and
  the hash grid, which the caller keeps between passes.
\<close>

definition VertexConnectionAndMerging ::
  "'r VcmLib \<Rightarrow> 'h HashGridLib \<Rightarrow> 'r KernelContext \<Rightarrow> VcmVertex list \<Rightarrow> 'h \<Rightarrow> float \<Rightarrow> uint32 \<Rightarrow> uint32
     \<Rightarrow> 'r KernelContext \<times> VcmVertex list \<times> 'h" where
  "VertexConnectionAndMerging lib grid context pathVertices hashGrid kernelRadius width height =
     (let lightPathCount = width * height;
          kernelRadiusSquare = kernelRadius * kernelRadius;
          vmNormalization = 1 / (Pi * kernelRadiusSquare * real (unat lightPathCount));
          vmWeight = Pi * kernelRadiusSquare * real (unat lightPathCount);
          vcWeight = 1 / vmWeight;
          pass = VertexConnectionAndMerging_lightPhase lib context kernelRadius width height;
          hashGrid = BuildHashGrid grid hashGrid lightPathCount kernelRadius (vp_deletememaybe pass);
          context = CameraPaths lib grid vmWeight vcWeight vmNormalization lightPathCount
                      width height pass hashGrid (vp_context pass)
      in (context, vp_pathVertices pass, hashGrid))"

section \<open>VCM integrator: the driver's settings\<close>

text \<open>
  The fields of the integration context that do not depend on threads or time, as
  \<^verbatim>\<open>GenerateImage\<close> sets them, and the kernel radius that \<^verbatim>\<open>VCMKernel\<close> computes for the
  pass whose counter value (the result of \<^verbatim>\<open>Atomic::Increment64\<close>) is \<open>index\<close>.
\<close>

record IntegrationContext =
  ic_width :: uint32
  ic_height :: uint32
  ic_maxBounceCount :: uint32
  ic_integrationSeconds :: float
  ic_vcmRadius :: float
  ic_vcmRadiusAlpha :: float

definition GenerateImage_integratorContext ::
  "SceneResource \<Rightarrow> uint32 \<Rightarrow> uint32 \<Rightarrow> IntegrationContext" where
  "GenerateImage_integratorContext scene width height =
     \<lparr> ic_width = width,
       ic_height = height,
       ic_maxBounceCount = MaxBounceCount,
       ic_integrationSeconds = IntegrationSeconds,
       ic_vcmRadius = VcmRadiusFactor * scene_boundingSphereRadius scene,
       ic_vcmRadiusAlpha = VcmRadiusAlpha \<rparr>"

definition VCMKernel_vcmKernelRadius :: "IntegrationContext \<Rightarrow> int \<Rightarrow> float" where
  "VCMKernel_vcmKernelRadius integratorContext index =
     (let iterationIndex = real_of_int index + 1
      in ic_vcmRadius integratorContext
           / Powf iterationIndex (0.5 * (1 - ic_vcmRadiusAlpha integratorContext)))"

text \<open>One pass of the loop of \<^verbatim>\<open>VCMKernel\<close>, for the counter value \<open>index\<close>.\<close>

definition VCMKernel_pass ::
  "'r VcmLib \<Rightarrow> 'h HashGridLib \<Rightarrow> IntegrationContext \<Rightarrow> 'r KernelContext \<Rightarrow> VcmVertex list \<Rightarrow> 'h
     \<Rightarrow> int \<Rightarrow> 'r KernelContext \<times> VcmVertex list \<times> 'h" where
  "VCMKernel_pass lib grid integratorContext kernelContext lightVertices hashGrid index =
     VertexConnectionAndMerging lib grid kernelContext lightVertices hashGrid
       (VCMKernel_vcmKernelRadius integratorContext index)
       (ic_width integratorContext) (ic_height integratorContext)"

section \<open>The texture lookup rules of the spec\<close>

text \<open>
  The lookup rule of the spec (Section 4.1, step 7), in the spec's words: the
  triangle-filtered sample of the texture at \<open>uv\<close>, converted from sRGB to linear when the
  channel is an sRGB channel, and a default value when the material has no such texture.
\<close>

definition texLookup ::
  "ShadingLib \<Rightarrow> SceneResource \<Rightarrow> uint32 \<Rightarrow> float2 \<Rightarrow> bool \<Rightarrow> float3 \<Rightarrow> float3" where
  "texLookup lib scene textureIndex uv sRGB defaultValue =
     (if textureIndex = InvalidIndex32 lib then defaultValue
      else if sRGB
      then SrgbToLinearPrecise3 (tex_TriangleFloat3 (scene_textures scene textureIndex) 0 uv)
      else tex_TriangleFloat3 (scene_textures scene textureIndex) 0 uv)"

definition texLookupFloat ::
  "ShadingLib \<Rightarrow> SceneResource \<Rightarrow> uint32 \<Rightarrow> float2 \<Rightarrow> bool \<Rightarrow> float \<Rightarrow> float" where
  "texLookupFloat lib scene textureIndex uv sRGB defaultValue =
     (if textureIndex = InvalidIndex32 lib then defaultValue
      else if sRGB
      then SrgbToLinearPrecise (tex_TriangleFloat (scene_textures scene textureIndex) 0 uv)
      else tex_TriangleFloat (scene_textures scene textureIndex) 0 uv)"

text \<open>The normal map: sampled in \<open>[0,1]\<close> and remapped to \<open>[-1,1]\<close>; the z axis by default.\<close>

definition normalLookup :: "ShadingLib \<Rightarrow> SceneResource \<Rightarrow> uint32 \<Rightarrow> float2 \<Rightarrow> float3" where
  "normalLookup lib scene textureIndex uv =
     (if textureIndex = InvalidIndex32 lib then ZAxis3
      else subS3 (scale3 2 (tex_TriangleFloat3 (scene_textures scene textureIndex) 0 uv)) 1)"

section \<open>The at-hit MIS update of the spec\<close>

text \<open>
  The update at a new hit in the words of the spec (Section 4.2), for both subpaths: with
  \<open>L\<^sup>2 = |newPos - prevPos|\<^sup>2\<close> and \<open>|cos \<theta>| = |dot(n_shading, viewDir)|\<close>, where the
  shading normal is the perturbed normal of the surface, \<open>dVCM\<close> is multiplied by \<open>L\<^sup>2\<close>
  if the segment is not the first one or the source was not an area measure, and then
  all three quantities are divided by \<open>|cos \<theta>|\<close>.
\<close>

definition MisUpdateAtHit_spec :: "PathState \<Rightarrow> SurfaceParameters \<Rightarrow> HitParameters \<Rightarrow> PathState" where
  "MisUpdateAtHit_spec state surface hit =
     (let L2 = LengthSquared (sub3 (surf_position surface) (ps_position state));
          cosTheta = \<bar>Dot (surf_perturbedNormal surface) (hit_viewDirection hit)\<bar>;
          dVCM = (if ps_pathLength state \<noteq> 1 \<or> ps_isAreaMeasure state = 0
                  then ps_dVCM state * L2 else ps_dVCM state)
      in state\<lparr> ps_dVCM := dVCM / cosTheta,
                ps_dVC := ps_dVC state / cosTheta,
                ps_dVM := ps_dVM state / cosTheta \<rparr>)"

section \<open>An instance to evaluate on\<close>

text \<open>
  A scene of identical vertices with the normal \<open>(0, 0, 1)\<close>, one opaque material whose
  albedo texture returns the constant \<open>1/100\<close>, and collaborators that always hit, always
  scatter straight down and never occlude.
\<close>

text \<open>\<open>example_surface\<close> also is the content of an uninitialised surface in this instance.\<close>

definition example_surface :: SurfaceParameters where
  "example_surface =
     \<lparr> surf_position = Float3 1 2 3,
       surf_geometricNormal = Float3 0 0 1,
       surf_perturbedNormal = Float3 0 1 0,
       surf_view = Float3 0 0 1,
       surf_error = 1 / 2,
       surf_tangentToWorld = Float3x3 (Float3 1 0 0) (Float3 0 0 1) (Float3 0 1 0),
       surf_worldToTangent = Float3x3 (Float3 1 0 0) (Float3 0 0 1) (Float3 0 1 0),
       surf_rxOrigin = Zero3,
       surf_rxDirection = Zero3,
       surf_ryOrigin = Zero3,
       surf_ryDirection = Zero3,
       surf_dpdu = Zero3,
       surf_dpdv = Zero3,
       surf_differentials = SurfaceDifferentials_default,
       surf_materialFlags = 0,
       surf_emissive = Zero3,
       surf_albedo = One3,
       surf_specularColor = One3,
       surf_roughness = 1,
       surf_metalness = 0,
       surf_shader = 0,
       surf_ior = 1 \<rparr>"

definition example_shading :: ShadingLib where
  "example_shading =
     \<lparr> InvalidIndex32 = - 1,
       eTransparent = 4,
       eHasTextures = 2,
       ePreserveRayDifferentials = 1,
       SmallFloatEpsilon = 1 / 1000000,
       MakeOrthogonalCoordinateSystem = (\<lambda>n. (Float3 1 0 0, Float3 0 1 0)),
       SolveLinearSystem = (\<lambda>A B. None) \<rparr>"

definition example_vertex :: VertexAuxiliaryData where
  "example_vertex =
     \<lparr> vad_px = 0, vad_py = 0, vad_pz = 0,
       vad_nx = 0, vad_ny = 0, vad_nz = 1,
       vad_tx = 1, vad_ty = 0, vad_tz = 0,
       vad_bh = 1, vad_u = 0, vad_v = 0,
       vad_materialIndex = 0 \<rparr>"

definition example_material :: Material where
  "example_material =
     \<lparr> mat_flags = 0,
       mat_emissiveTextureIndex = - 1,
       mat_albedoTextureIndex = 0,
       mat_specularTextureIndex = - 1,
       mat_roughnessTextureIndex = - 1,
       mat_metalnessTextureIndex = - 1,
       mat_normalTextureIndex = - 1,
       mat_albedo = One3,
       mat_roughness = 1,
       mat_metalness = 0,
       mat_shader = 0,
       mat_ior = 1 \<rparr>"

definition example_texture :: TextureResource where
  "example_texture =
     \<lparr> tex_TriangleFloat3 = (\<lambda>level uv. Float3 (1 / 100) (1 / 100) (1 / 100)),
       tex_EWAFloat3 = (\<lambda>uv duvdx duvdy. Float3 (1 / 100) (1 / 100) (1 / 100)),
       tex_TriangleFloat = (\<lambda>level uv. 1 / 100),
       tex_EWAFloat = (\<lambda>uv duvdx duvdy. 1 / 100) \<rparr>"

definition example_scene :: SceneResource where
  "example_scene =
     \<lparr> scene_indices = (\<lambda>i. 0),
       scene_vertexData = (\<lambda>i. example_vertex),
       scene_materials = (\<lambda>i. example_material),
       scene_textures = (\<lambda>i. example_texture),
       scene_boundingSphereRadius = 2 \<rparr>"

definition example_context :: "unit KernelContext" where
  "example_context =
     \<lparr> ctx_scene = example_scene,
       ctx_camera = \<lparr> cam_position = Float3 0 0 5, cam_forward = Float3 0 0 (- 1),
                      cam_imagePlaneDistance = 1, cam_viewportWidth = 1,
                      cam_viewportHeight = 1 \<rparr>,
       ctx_imageData = (\<lambda>i. Zero3),
       ctx_imageWidth = 1,
       ctx_imageHeight = 1,
       ctx_twister = (),
       ctx_maxPathLength = MaxBounceCount \<rparr>"

definition example_hit :: HitParameters where
  "example_hit =
     \<lparr> hit_position = Float3 0 0 0,
       hit_baryCoords = Float2 (1 / 4) (1 / 4),
       hit_primId = 0,
       hit_error = 1 / 1000,
       hit_viewDirection = Float3 0 0 1,
       hit_rxOrigin = Zero3,
       hit_rxDirection = Zero3,
       hit_ryOrigin = Zero3,
       hit_ryDirection = Zero3,
       hit_pixelIndex = 0,
       hit_throughput = One3,
       hit_bounceCount = 0 \<rparr>"

definition example_lib :: "unit VcmLib" where
  "example_lib =
     \<lparr> shading = example_shading,
       MakeRay = (\<lambda>origin direction throughput pixelIndex bounceCount.
          \<lparr> ray_origin = origin, ray_direction = direction,
            ray_rxOrigin = Zero3, ray_rxDirection = Zero3,
            ray_ryOrigin = Zero3, ray_ryDirection = Zero3,
            ray_throughput = throughput, ray_pixelIndex = pixelIndex,
            ray_bounceCount = bounceCount \<rparr>),
       rtcIntersect1 = (\<lambda>ray. (ray\<lparr> rtc_tfar := 1 \<rparr>,
          \<lparr> rtc_geomID = 0, rtc_primID = 0, rtc_u = 1 / 4, rtc_v = 1 / 4 \<rparr>)),
       rtcOccluded1 = (\<lambda>ray. ray),
       EmitIblLightSample = (\<lambda>context.
          (\<lparr> les_position = Float3 0 0 1, les_direction = Float3 0 0 (- 1),
             les_radiance = One3, les_emissionPdfW = 1, les_directionPdfA = 1,
             les_cosThetaLight = 1 \<rparr>, ())),
       DirectIblLightSample = (\<lambda>context.
          (\<lparr> lds_direction = Float3 0 0 1, lds_distance = 1, lds_radiance = One3,
             lds_emissionPdfW = 1, lds_directionPdfA = 1, lds_cosThetaLight = 1 \<rparr>, ())),
       DirectIblSample = (\<lambda>context direction. (One3, 1, 1)),
       EvaluateBsdf = (\<lambda>surface wo wi. (One3, 1, 1)),
       SampleBsdfFunction = (\<lambda>context surface wo.
          (Some \<lparr> bs_wi = Float3 0 0 (- 1), bs_reflectance = Float3 (1 / 2) (1 / 2) (1 / 2),
                  bs_forwardPdfW = 2, bs_reversePdfW = 3 \<rparr>, ())),
       MersenneTwisterFloat = (\<lambda>twister. (1 / 2, twister)),
       JitteredCameraRay = (\<lambda>camera twister seed x y.
          (\<lparr> ray_origin = Float3 0 0 5, ray_direction = Float3 0 0 (- 1),
             ray_rxOrigin = Zero3, ray_rxDirection = Zero3,
             ray_ryOrigin = Zero3, ray_ryDirection = Zero3,
             ray_throughput = One3, ray_pixelIndex = seed, ray_bounceCount = 0 \<rparr>, twister)),
       WorldToImage = (\<lambda>camera position. (0, 0)),
       OffsetRayOriginBias = (\<lambda>surface direction biasScale.
          (OffsetRayOrigin surface direction biasScale, 0)),
       UninitializedSurface = example_surface \<rparr>"

text \<open>
  A light path state at its first segment as \<^verbatim>\<open>GenerateLightSample\<close> leaves it (path
  length 1, not an area measure), a camera path state at its first segment (an area
  measure), and a hit seen from the direction \<open>(0, 3/5, 4/5)\<close>.
\<close>

definition example_light_state :: PathState where
  "example_light_state =
     \<lparr> ps_position = Float3 1 2 5,
       ps_direction = Float3 0 0 (- 1),
       ps_throughput = One3,
       ps_dVCM = 4,
       ps_dVC = 1,
       ps_dVM = 2,
       ps_pathLength = 1,
       ps_isAreaMeasure = 0 \<rparr>"

definition example_camera_state :: PathState where
  "example_camera_state = example_light_state\<lparr> ps_isAreaMeasure := 1 \<rparr>"

definition example_oblique_hit :: HitParameters where
  "example_oblique_hit = example_hit\<lparr> hit_viewDirection := Float3 0 (3 / 5) (4 / 5) \<rparr>"

text \<open>A hash grid that finds nothing, an empty pass and a stored light vertex.\<close>

definition example_grid :: "unit HashGridLib" where
  "example_grid =
     \<lparr> BuildHashGrid = (\<lambda>hashGrid pointCount radius points. hashGrid),
       SearchHashGrid = (\<lambda>hashGrid points position. []) \<rparr>"

definition example_pass :: "unit VcmPass" where
  "example_pass =
     \<lparr> vp_context = example_context, vp_pathVertices = [], vp_pathEnds = [],
       vp_deletememaybe = [] \<rparr>"


section \<open>Properties: vector algebra\<close>

lemma sub3_add3_cancel: "sub3 (add3 p v) p = v"
  by (cases p; cases v) simp

lemma Dot_scale3_right: "Dot d (scale3 k v) = k * Dot d v"
  by (cases d; cases v) (simp add: algebra_simps)

lemma LengthSquared_scale3: "LengthSquared (scale3 k v) = k\<^sup>2 * LengthSquared v"
  by (cases v) (simp add: LengthSquared_def power2_eq_square algebra_simps)


section \<open>Properties: OffsetRayOrigin\<close>

lemma OffsetRayOrigin_offset:
  "sub3 (OffsetRayOrigin surface direction biasScale) (surf_position surface) =
     scale3 ((if Dot direction (surf_geometricNormal surface) < 0 then - 1 else 1)
               * surf_error surface * biasScale) (surf_geometricNormal surface)"
  by (simp add: OffsetRayOrigin_def Let_def sub3_add3_cancel)

lemma OffsetRayOrigin_side:
  assumes "0 \<le> surf_error surface * biasScale"
  shows "0 \<le> Dot direction
           (sub3 (OffsetRayOrigin surface direction biasScale) (surf_position surface))"
proof -
  let ?g = "surf_geometricNormal surface"
  let ?s = "if Dot direction ?g < 0 then - 1 else (1::real)"
  have "Dot direction (sub3 (OffsetRayOrigin surface direction biasScale) (surf_position surface))
        = (surf_error surface * biasScale) * (?s * Dot direction ?g)"
    by (simp add: OffsetRayOrigin_offset Dot_scale3_right)
  moreover have "0 \<le> ?s * Dot direction ?g"
    by simp
  ultimately show ?thesis
    using assms by simp
qed

lemma OffsetRayOrigin_distance:
  assumes "0 \<le> surf_error surface * biasScale"
    and "LengthSquared (surf_geometricNormal surface) = 1"
  shows "Length (sub3 (OffsetRayOrigin surface direction biasScale) (surf_position surface))
           = surf_error surface * biasScale"
proof -
  have "LengthSquared (sub3 (OffsetRayOrigin surface direction biasScale) (surf_position surface))
          = (surf_error surface * biasScale)\<^sup>2"
    using assms(2) by (simp add: OffsetRayOrigin_offset LengthSquared_scale3)
  then have "Length (sub3 (OffsetRayOrigin surface direction biasScale) (surf_position surface))
          = \<bar>surf_error surface * biasScale\<bar>"
    by (simp add: Length_def Sqrtf_def)
  with assms(1) show ?thesis
    by simp
qed

text \<open>
  C10, as the spec states it, fails for a negative bias scale and for a geometric normal
  that is not a unit vector. With the error \<open>1/2\<close>, the normal \<open>(0, 0, 1)\<close> and the bias
  scale \<open>-1/10\<close>, the direction \<open>(0, 1, -1)\<close> points to the negative side of the normal
  and the origin is moved by \<open>(0, 0, 1/20)\<close> to the positive side, against the direction,
  while \<open>error * biasScale = -1/20\<close> is no distance. With the normal \<open>(0, 0, 2)\<close> and the
  bias scale \<open>1/10\<close> the squared distance is \<open>1/100\<close>, not \<open>(error * biasScale)\<^sup>2 = 1/400\<close>.
\<close>

theorem OffsetRayOrigin_side_counterexample:
  "OffsetRayOrigin example_surface (Float3 0 1 (- 1)) (- 1 / 10) = Float3 1 2 (61 / 20)
   \<and> Dot (Float3 0 1 (- 1)) (surf_geometricNormal example_surface) = - 1
   \<and> Dot (sub3 (OffsetRayOrigin example_surface (Float3 0 1 (- 1)) (- 1 / 10))
                (surf_position example_surface))
          (surf_geometricNormal example_surface) = 1 / 20
   \<and> Dot (Float3 0 1 (- 1))
          (sub3 (OffsetRayOrigin example_surface (Float3 0 1 (- 1)) (- 1 / 10))
                (surf_position example_surface)) = - 1 / 20
   \<and> surf_error example_surface * (- 1 / 10) = - 1 / 20
   \<and> LengthSquared
         (sub3 (OffsetRayOrigin (example_surface\<lparr> surf_geometricNormal := Float3 0 0 2 \<rparr>)
                  (Float3 0 1 (- 1)) (1 / 10))
               (surf_position example_surface)) = 1 / 100
   \<and> (surf_error example_surface * (1 / 10))\<^sup>2 = 1 / 400"
  by (simp add: OffsetRayOrigin_def example_surface_def Let_def LengthSquared_def
        power2_eq_square)

text \<open>
  C10, amended. For every surface, direction and bias scale, \<^verbatim>\<open>OffsetRayOrigin\<close> returns
  \<open>position + s * error * biasScale * geometricNormal\<close> with \<open>s = -1\<close> if
  \<open>Dot direction geometricNormal < 0\<close> and \<open>s = 1\<close> otherwise, and the result is the same
  for any other surface with the same position, error and geometric normal: no other
  field is read. The offset has the squared length
  \<open>(error * biasScale)\<^sup>2 * |geometricNormal|\<^sup>2\<close>. When \<open>error * biasScale\<close> is not negative,
  the offset does not point against the direction (the origin lies on the side of the
  geometric normal that the direction points toward), and when the geometric normal is a
  unit vector as well, the origin is at the distance \<open>error * biasScale\<close> from the position.
\<close>

theorem OffsetRayOrigin_formula:
  "OffsetRayOrigin surface direction biasScale =
     add3 (surf_position surface)
       (scale3 ((if Dot direction (surf_geometricNormal surface) < 0 then - 1 else 1)
                 * surf_error surface * biasScale) (surf_geometricNormal surface))
   \<and> LengthSquared (sub3 (OffsetRayOrigin surface direction biasScale) (surf_position surface))
       = (surf_error surface * biasScale)\<^sup>2 * LengthSquared (surf_geometricNormal surface)
   \<and> (0 \<le> surf_error surface * biasScale \<longrightarrow>
        0 \<le> Dot direction
              (sub3 (OffsetRayOrigin surface direction biasScale) (surf_position surface)))
   \<and> (\<forall>other. surf_position other = surf_position surface
           \<and> surf_error other = surf_error surface
           \<and> surf_geometricNormal other = surf_geometricNormal surface
        \<longrightarrow> OffsetRayOrigin other direction biasScale
              = OffsetRayOrigin surface direction biasScale)
   \<and> (0 \<le> surf_error surface * biasScale
        \<and> LengthSquared (surf_geometricNormal surface) = 1 \<longrightarrow>
        Length (sub3 (OffsetRayOrigin surface direction biasScale) (surf_position surface))
          = surf_error surface * biasScale)"
proof (intro conjI allI impI)
  show "OffsetRayOrigin surface direction biasScale =
     add3 (surf_position surface)
       (scale3 ((if Dot direction (surf_geometricNormal surface) < 0 then - 1 else 1)
                 * surf_error surface * biasScale) (surf_geometricNormal surface))"
    by (simp add: OffsetRayOrigin_def Let_def)
  show "LengthSquared (sub3 (OffsetRayOrigin surface direction biasScale) (surf_position surface))
       = (surf_error surface * biasScale)\<^sup>2 * LengthSquared (surf_geometricNormal surface)"
    by (simp add: OffsetRayOrigin_offset LengthSquared_scale3)
  show "0 \<le> Dot direction
              (sub3 (OffsetRayOrigin surface direction biasScale) (surf_position surface))"
    if "0 \<le> surf_error surface * biasScale"
    using that by (rule OffsetRayOrigin_side)
  show "OffsetRayOrigin other direction biasScale = OffsetRayOrigin surface direction biasScale"
    if "surf_position other = surf_position surface
           \<and> surf_error other = surf_error surface
           \<and> surf_geometricNormal other = surf_geometricNormal surface" for other
    using that by (simp add: OffsetRayOrigin_def)
  show "Length (sub3 (OffsetRayOrigin surface direction biasScale) (surf_position surface))
          = surf_error surface * biasScale"
    if "0 \<le> surf_error surface * biasScale
        \<and> LengthSquared (surf_geometricNormal surface) = 1"
    using that by (simp add: OffsetRayOrigin_distance)
qed

theorem OffsetRayOrigin_formula_witness:
  "OffsetRayOrigin example_surface (Float3 0 1 (- 1)) (1 / 10) = Float3 1 2 (59 / 20)
   \<and> 0 \<le> surf_error example_surface * (1 / 10)
   \<and> LengthSquared (surf_geometricNormal example_surface) = 1
   \<and> 0 \<le> Dot (Float3 0 1 (- 1))
            (sub3 (OffsetRayOrigin example_surface (Float3 0 1 (- 1)) (1 / 10))
                  (surf_position example_surface))
   \<and> Length (sub3 (OffsetRayOrigin example_surface (Float3 0 1 (- 1)) (1 / 10))
                  (surf_position example_surface)) = 1 / 20
   \<and> OffsetRayOrigin (example_surface\<lparr> surf_albedo := Zero3 \<rparr>) (Float3 0 1 (- 1)) (1 / 10)
       = OffsetRayOrigin example_surface (Float3 0 1 (- 1)) (1 / 10)"
proof -
  have h: "0 \<le> surf_error example_surface * (1 / 10)"
    by (simp add: example_surface_def)
  have u: "LengthSquared (surf_geometricNormal example_surface) = 1"
    by (simp add: example_surface_def LengthSquared_def)
  have e: "surf_error example_surface * (1 / 10) = 1 / 20"
    by (simp add: example_surface_def)
  have o: "surf_position (example_surface\<lparr> surf_albedo := Zero3 \<rparr>) = surf_position example_surface
           \<and> surf_error (example_surface\<lparr> surf_albedo := Zero3 \<rparr>) = surf_error example_surface
           \<and> surf_geometricNormal (example_surface\<lparr> surf_albedo := Zero3 \<rparr>)
               = surf_geometricNormal example_surface"
    by simp
  note f = OffsetRayOrigin_formula [of example_surface "Float3 0 1 (- 1)" "1 / 10"]
  have a: "OffsetRayOrigin example_surface (Float3 0 1 (- 1)) (1 / 10) = Float3 1 2 (59 / 20)"
    by (subst f [THEN conjunct1]) (simp add: example_surface_def)
  have b: "0 \<le> Dot (Float3 0 1 (- 1))
            (sub3 (OffsetRayOrigin example_surface (Float3 0 1 (- 1)) (1 / 10))
                  (surf_position example_surface))"
    using f h by blast
  have c: "Length (sub3 (OffsetRayOrigin example_surface (Float3 0 1 (- 1)) (1 / 10))
                  (surf_position example_surface)) = surf_error example_surface * (1 / 10)"
    using f h u by blast
  have d: "OffsetRayOrigin (example_surface\<lparr> surf_albedo := Zero3 \<rparr>) (Float3 0 1 (- 1)) (1 / 10)
       = OffsetRayOrigin example_surface (Float3 0 1 (- 1)) (1 / 10)"
    using f o by blast
  from c e have c': "Length (sub3 (OffsetRayOrigin example_surface (Float3 0 1 (- 1)) (1 / 10))
                  (surf_position example_surface)) = 1 / 20"
    by simp
  show ?thesis
    by (intro conjI a h u b c' d)
qed

section \<open>Properties: CalculateSurfaceParams\<close>

lemma SampleTextureFloat3_texLookup:
  "SampleTextureFloat3 lib surface scene uvs textureIndex sRGB hasDifferentials defaultValue
     = texLookup lib scene textureIndex uvs sRGB defaultValue"
  by (simp add: SampleTextureFloat3_def texLookup_def EnableEWA_def)

lemma SampleTextureFloat_texLookupFloat:
  "SampleTextureFloat lib surface scene uvs textureIndex sRGB hasDifferentials defaultValue
     = texLookupFloat lib scene textureIndex uvs sRGB defaultValue"
  by (simp add: SampleTextureFloat_def texLookupFloat_def EnableEWA_def)

lemma SampleTextureNormal_normalLookup:
  "SampleTextureNormal lib surface scene uvs textureIndex hasDifferentials
     = normalLookup lib scene textureIndex uvs"
  by (simp add: SampleTextureNormal_def normalLookup_def EnableEWA_def)

lemma CalculateSurfaceParams_None:
  "CalculateSurfaceParams lib context hit surface = None \<longleftrightarrow>
     Dot (InterpolatedNormal (ctx_scene context) hit) (hit_viewDirection hit) < 0
     \<and> (mat_flags (HitMaterial (ctx_scene context) hit) AND eTransparent lib) = 0"
  unfolding CalculateSurfaceParams_def
  apply (subst Let_def, subst Let_def, subst Let_def, subst Let_def,
         subst Let_def, subst Let_def, subst Let_def, subst Let_def)
  apply (cases "Dot (InterpolatedNormal (ctx_scene context) hit) (hit_viewDirection hit) < 0
     \<and> (mat_flags (HitMaterial (ctx_scene context) hit) AND eTransparent lib) = 0")
   apply (simp_all only: if_True if_False option.distinct simp_thms)
  done

lemma CalculateSurfaceParams_albedo:
  assumes "CalculateSurfaceParams lib context hit surface = Some s"
  shows "surf_albedo s =
           mul3 (mat_albedo (HitMaterial (ctx_scene context) hit))
                (texLookup lib (ctx_scene context)
                   (mat_albedoTextureIndex (HitMaterial (ctx_scene context) hit))
                   (Interpolate2 (ctx_scene context) hit vad_uv) False One3)"
  using assms
  unfolding CalculateSurfaceParams_def
  apply (subst (asm) Let_def, subst (asm) Let_def, subst (asm) Let_def, subst (asm) Let_def,
         subst (asm) Let_def, subst (asm) Let_def, subst (asm) Let_def, subst (asm) Let_def)
  apply (simp add: SampleTextureFloat3_texLookup SampleTextureFloat_texLookupFloat
                   SampleTextureNormal_normalLookup split: if_splits)
  apply (auto simp: Let_def)
  done

lemma example_ctx_scene: "ctx_scene example_context = example_scene"
  by (simp add: example_context_def)

lemma example_InterpolatedNormal:
  "hit_baryCoords hit = Float2 (1 / 4) (1 / 4) \<Longrightarrow>
   InterpolatedNormal example_scene hit = Float3 0 0 1"
  by (simp add: InterpolatedNormal_def Interpolate3_def HitVertex_def example_scene_def
        example_vertex_def vad_normal_def BaryA0_def BaryA1_def BaryA2_def Saturate_def
        Normalize_def Length_def LengthSquared_def Sqrtf_def)

lemma example_HitMaterial: "HitMaterial example_scene hit = example_material"
  by (simp add: HitMaterial_def example_scene_def)

text \<open>
  C4. \<^verbatim>\<open>CalculateSurfaceParams\<close> fails exactly when the interpolated shading normal faces
  away from the view direction and the material is not flagged transparent; on every
  other input it returns a surface.
\<close>

theorem CalculateSurfaceParams_fails_iff:
  "CalculateSurfaceParams lib context hit surface = None \<longleftrightarrow>
     Dot (InterpolatedNormal (ctx_scene context) hit) (hit_viewDirection hit) < 0
     \<and> (mat_flags (HitMaterial (ctx_scene context) hit) AND eTransparent lib) = 0"
  by (rule CalculateSurfaceParams_None)

theorem CalculateSurfaceParams_fails_iff_witness:
  "CalculateSurfaceParams example_shading example_context example_hit example_surface \<noteq> None
   \<and> CalculateSurfaceParams example_shading example_context
        (example_hit\<lparr> hit_viewDirection := Float3 0 0 (- 1) \<rparr>) example_surface = None"
  using CalculateSurfaceParams_fails_iff
          [of example_shading example_context example_hit example_surface]
    CalculateSurfaceParams_fails_iff [of example_shading example_context
       "example_hit\<lparr> hit_viewDirection := Float3 0 0 (- 1) \<rparr>" example_surface]
  by (simp add: example_ctx_scene example_InterpolatedNormal example_HitMaterial example_hit_def
        example_material_def example_shading_def)

lemma example_texLookup:
  "texLookup example_shading example_scene 0 uv sRGB defaultValue =
     (if sRGB then Float3 (1 / 1292) (1 / 1292) (1 / 1292)
      else Float3 (1 / 100) (1 / 100) (1 / 100))"
  by (simp add: texLookup_def example_shading_def example_scene_def example_texture_def
        SrgbToLinearPrecise_def)

lemma example_albedo:
  "map_option surf_albedo
     (CalculateSurfaceParams example_shading example_context example_hit example_surface)
   = Some (Float3 (1 / 100) (1 / 100) (1 / 100))"
proof -
  have "CalculateSurfaceParams example_shading example_context example_hit example_surface \<noteq> None"
    by (simp add: CalculateSurfaceParams_None example_ctx_scene example_InterpolatedNormal
          example_hit_def)
  then obtain s where s:
    "CalculateSurfaceParams example_shading example_context example_hit example_surface = Some s"
    by blast
  from CalculateSurfaceParams_albedo [OF s]
  have "surf_albedo s = Float3 (1 / 100) (1 / 100) (1 / 100)"
    by (simp add: example_ctx_scene example_HitMaterial example_material_def example_texLookup
          One3_def)
  with s show ?thesis by simp
qed

text \<open>
  C2, as the spec states it, fails: the albedo is not the material's albedo times the
  sRGB-decoded sample. In the instance the texture returns \<open>1/100\<close>; the code's albedo is
  \<open>1/100\<close>, the decoded sample would be \<open>1/1292\<close>.
\<close>

theorem albedo_sRGB_counterexample:
  "map_option surf_albedo
     (CalculateSurfaceParams example_shading example_context example_hit example_surface)
     = Some (Float3 (1 / 100) (1 / 100) (1 / 100))
   \<and> mul3 (mat_albedo (HitMaterial (ctx_scene example_context) example_hit))
          (texLookup example_shading (ctx_scene example_context)
             (mat_albedoTextureIndex (HitMaterial (ctx_scene example_context) example_hit))
             (Interpolate2 (ctx_scene example_context) example_hit vad_uv) True One3)
     = Float3 (1 / 1292) (1 / 1292) (1 / 1292)
   \<and> map_option surf_albedo
       (CalculateSurfaceParams example_shading example_context example_hit example_surface)
     \<noteq> Some (mul3 (mat_albedo (HitMaterial (ctx_scene example_context) example_hit))
          (texLookup example_shading (ctx_scene example_context)
             (mat_albedoTextureIndex (HitMaterial (ctx_scene example_context) example_hit))
             (Interpolate2 (ctx_scene example_context) example_hit vad_uv) True One3))"
  by (simp add: example_albedo example_ctx_scene example_HitMaterial example_material_def
        example_texLookup One3_def)

text \<open>
  C2, amended. When \<^verbatim>\<open>CalculateSurfaceParams\<close> succeeds, the albedo is the material's albedo
  times the texture lookup without a conversion (the sRGB flag of the call is false), and
  the lookup is 1 when the material has no albedo texture.
\<close>

theorem CalculateSurfaceParams_albedo_linear:
  "CalculateSurfaceParams lib context hit surface = Some s \<Longrightarrow>
   surf_albedo s =
     mul3 (mat_albedo (HitMaterial (ctx_scene context) hit))
          (texLookup lib (ctx_scene context)
             (mat_albedoTextureIndex (HitMaterial (ctx_scene context) hit))
             (Interpolate2 (ctx_scene context) hit vad_uv) False One3)
   \<and> texLookup lib (ctx_scene context) (InvalidIndex32 lib)
        (Interpolate2 (ctx_scene context) hit vad_uv) False One3 = One3"
  by (simp add: CalculateSurfaceParams_albedo) (simp add: texLookup_def)

theorem CalculateSurfaceParams_albedo_linear_witness:
  "map_option surf_albedo
     (CalculateSurfaceParams example_shading example_context example_hit example_surface)
   = Some (Float3 (1 / 100) (1 / 100) (1 / 100))"
proof -
  have "CalculateSurfaceParams example_shading example_context example_hit example_surface \<noteq> None"
    by (simp add: CalculateSurfaceParams_None example_ctx_scene example_InterpolatedNormal
          example_hit_def)
  then obtain s where s:
    "CalculateSurfaceParams example_shading example_context example_hit example_surface = Some s"
    by blast
  from CalculateSurfaceParams_albedo_linear [OF s]
  show ?thesis
    by (simp add: s example_ctx_scene example_HitMaterial example_material_def example_texLookup
          One3_def)
qed

section \<open>Properties: SampleBsdfScattering\<close>

lemma SampleBsdfScattering_success:
  assumes "SampleBsdfScattering lib context surface vmWeight vcWeight pathState
             = (True, context', pathState')"
  shows "\<exists>sample twister.
           SampleBsdfFunction lib context surface (neg3 (ps_direction pathState))
             = (Some sample, twister)
           \<and> \<not> IsZero3 (bs_reflectance sample)
           \<and> context' = context\<lparr> ctx_twister := twister \<rparr>
           \<and> pathState' =
               \<lparr> ps_position = surf_position surface,
                 ps_direction = bs_wi sample,
                 ps_throughput = mul3 (ps_throughput pathState) (bs_reflectance sample),
                 ps_dVCM = 1 / bs_forwardPdfW sample,
                 ps_dVC = (Absf (Dot (bs_wi sample) (surf_perturbedNormal surface))
                             / bs_forwardPdfW sample)
                          * (ps_dVC pathState * bs_reversePdfW sample + ps_dVCM pathState + vmWeight),
                 ps_dVM = (Absf (Dot (bs_wi sample) (surf_perturbedNormal surface))
                             / bs_forwardPdfW sample)
                          * (ps_dVM pathState * bs_reversePdfW sample
                               + ps_dVCM pathState * vcWeight + 1),
                 ps_pathLength = ps_pathLength pathState + 1,
                 ps_isAreaMeasure = ps_isAreaMeasure pathState \<rparr>"
proof -
  obtain result twister where
    f: "SampleBsdfFunction lib context surface (neg3 (ps_direction pathState)) = (result, twister)"
    by (cases "SampleBsdfFunction lib context surface (neg3 (ps_direction pathState))") auto
  from assms f obtain sample where r: "result = Some sample"
    by (cases result) (auto simp: SampleBsdfScattering_def)
  from assms f r have nz: "\<not> IsZero3 (bs_reflectance sample)"
    by (auto simp: SampleBsdfScattering_def split: if_splits)
  from assms f r nz have "context' = context\<lparr> ctx_twister := twister \<rparr>"
    by (simp add: SampleBsdfScattering_def Let_def)
  moreover from assms f r nz have "pathState' =
               \<lparr> ps_position = surf_position surface,
                 ps_direction = bs_wi sample,
                 ps_throughput = mul3 (ps_throughput pathState) (bs_reflectance sample),
                 ps_dVCM = 1 / bs_forwardPdfW sample,
                 ps_dVC = (Absf (Dot (bs_wi sample) (surf_perturbedNormal surface))
                             / bs_forwardPdfW sample)
                          * (ps_dVC pathState * bs_reversePdfW sample + ps_dVCM pathState + vmWeight),
                 ps_dVM = (Absf (Dot (bs_wi sample) (surf_perturbedNormal surface))
                             / bs_forwardPdfW sample)
                          * (ps_dVM pathState * bs_reversePdfW sample
                               + ps_dVCM pathState * vcWeight + 1),
                 ps_pathLength = ps_pathLength pathState + 1,
                 ps_isAreaMeasure = ps_isAreaMeasure pathState \<rparr>"
    by (cases pathState) (auto simp add: SampleBsdfScattering_def Let_def)
  ultimately show ?thesis
    using f r nz by blast
qed

text \<open>
  C3. When \<^verbatim>\<open>SampleBsdfScattering\<close> returns true, the BSDF sample \<open>sample\<close> it drew has a
  reflectance that is not zero and, with \<open>cos = |dot(wi, perturbedNormal)|\<close>, the path state
  has become: \<open>dVC = (cos / p_fw) * (dVC * p_rv + dVCM + vmWeight)\<close>,
  \<open>dVM = (cos / p_fw) * (dVM * p_rv + dVCM * vcWeight + 1)\<close>, \<open>dVCM = 1 / p_fw\<close>, all three
  computed from the old values, the throughput multiplied by the reflectance, and the
  path length incremented by one (position and direction are those of the surface and
  the sample, the area-measure flag is unchanged).
\<close>

theorem SampleBsdfScattering_update:
  "SampleBsdfScattering lib context surface vmWeight vcWeight pathState
     = (True, context', pathState') \<Longrightarrow>
   \<exists>sample twister.
      SampleBsdfFunction lib context surface (neg3 (ps_direction pathState))
        = (Some sample, twister)
      \<and> \<not> IsZero3 (bs_reflectance sample)
      \<and> context' = context\<lparr> ctx_twister := twister \<rparr>
      \<and> pathState' =
          \<lparr> ps_position = surf_position surface,
            ps_direction = bs_wi sample,
            ps_throughput = mul3 (ps_throughput pathState) (bs_reflectance sample),
            ps_dVCM = 1 / bs_forwardPdfW sample,
            ps_dVC = (Absf (Dot (bs_wi sample) (surf_perturbedNormal surface))
                        / bs_forwardPdfW sample)
                     * (ps_dVC pathState * bs_reversePdfW sample + ps_dVCM pathState + vmWeight),
            ps_dVM = (Absf (Dot (bs_wi sample) (surf_perturbedNormal surface))
                        / bs_forwardPdfW sample)
                     * (ps_dVM pathState * bs_reversePdfW sample
                          + ps_dVCM pathState * vcWeight + 1),
            ps_pathLength = ps_pathLength pathState + 1,
            ps_isAreaMeasure = ps_isAreaMeasure pathState \<rparr>"
  by (rule SampleBsdfScattering_success)

theorem SampleBsdfScattering_update_witness:
  "SampleBsdfScattering example_lib example_context
       (example_surface\<lparr> surf_perturbedNormal := Float3 0 0 1 \<rparr>) 2 (1 / 2) example_light_state
     = (True, example_context,
        \<lparr> ps_position = Float3 1 2 3,
          ps_direction = Float3 0 0 (- 1),
          ps_throughput = Float3 (1 / 2) (1 / 2) (1 / 2),
          ps_dVCM = 1 / 2,
          ps_dVC = 9 / 2,
          ps_dVM = 9 / 2,
          ps_pathLength = 2,
          ps_isAreaMeasure = 0 \<rparr>)"
proof -
  let ?surface = "example_surface\<lparr> surf_perturbedNormal := Float3 0 0 1 \<rparr>"
  let ?r = "SampleBsdfScattering example_lib example_context ?surface 2 (1 / 2) example_light_state"
  have f: "SampleBsdfFunction example_lib example_context ?surface
             (neg3 (ps_direction example_light_state))
           = (Some \<lparr> bs_wi = Float3 0 0 (- 1), bs_reflectance = Float3 (1 / 2) (1 / 2) (1 / 2),
                      bs_forwardPdfW = 2, bs_reversePdfW = 3 \<rparr>, ())"
    by (simp add: example_lib_def)
  have "fst ?r"
    by (simp add: SampleBsdfScattering_def f IsZero3_def Let_def)
  then have "?r = (True, fst (snd ?r), snd (snd ?r))"
    by (cases ?r) simp
  from SampleBsdfScattering_update [OF this] f
  have "fst (snd ?r) = example_context"
    and "snd (snd ?r) =
        \<lparr> ps_position = Float3 1 2 3,
          ps_direction = Float3 0 0 (- 1),
          ps_throughput = Float3 (1 / 2) (1 / 2) (1 / 2),
          ps_dVCM = 1 / 2,
          ps_dVC = 9 / 2,
          ps_dVM = 9 / 2,
          ps_pathLength = 2,
          ps_isAreaMeasure = 0 \<rparr>"
    by (auto simp: example_context_def example_surface_def example_light_state_def One3_def
          Absf_def)
  with \<open>?r = (True, fst (snd ?r), snd (snd ?r))\<close> show ?thesis
    by simp
qed

section \<open>Properties: ConnectPathVertices\<close>









section \<open>Properties: the radius schedule\<close>

lemma Powf_ge_one: "1 \<le> k \<Longrightarrow> 0 \<le> a \<Longrightarrow> 1 \<le> Powf k a"
  by (simp add: Powf_def ge_one_powr_ge_zero)

lemma Powf_mono: "0 < k \<Longrightarrow> k \<le> k' \<Longrightarrow> 0 \<le> a \<Longrightarrow> Powf k a \<le> Powf k' a"
  by (simp add: Powf_def powr_mono2)

lemma radius_schedule_le:
  assumes "0 \<le> r0" "1 \<le> k" "k \<le> k'" "0 \<le> a"
  shows "r0 / Powf k' a \<le> r0 / Powf k a" "r0 / Powf k a \<le> r0"
proof -
  have p: "1 \<le> Powf k a" using assms by (simp add: Powf_ge_one)
  have m: "Powf k a \<le> Powf k' a" using assms by (simp add: Powf_mono)
  from p m assms show "r0 / Powf k' a \<le> r0 / Powf k a"
    by (intro divide_left_mono) (auto intro: mult_pos_pos)
  from p have "r0 * 1 \<le> r0 * Powf k a"
    using assms(1) by (rule mult_left_mono)
  with p show "r0 / Powf k a \<le> r0"
    by (simp add: divide_le_eq)
qed

text \<open>
  C8. With the settings of \<^verbatim>\<open>GenerateImage\<close>, the kernel radius of the pass with counter
  value \<open>index\<close> is \<open>r\<^sub>0 / k powr (0.5 * (1 - 0.75))\<close> for the pass index \<open>k = index + 1\<close>
  and \<open>r\<^sub>0 = 0.005 * sceneBoundingSphereRadius\<close>. For a bounding sphere radius that is not
  negative and every \<open>k \<ge> 1\<close> (that is \<open>index \<ge> 0\<close>), the radius is at most \<open>r\<^sub>0\<close> and does
  not increase with the index.
\<close>

theorem radius_schedule:
  "VCMKernel_vcmKernelRadius (GenerateImage_integratorContext scene width height) index
     = (5 / 1000 * scene_boundingSphereRadius scene)
         / Powf (real_of_int index + 1) (0.5 * (1 - 75 / 100))
   \<and> (0 \<le> scene_boundingSphereRadius scene \<and> 0 \<le> index \<longrightarrow>
        VCMKernel_vcmKernelRadius (GenerateImage_integratorContext scene width height) index
          \<le> 5 / 1000 * scene_boundingSphereRadius scene)
   \<and> (0 \<le> scene_boundingSphereRadius scene \<and> 0 \<le> index \<and> index \<le> index' \<longrightarrow>
        VCMKernel_vcmKernelRadius (GenerateImage_integratorContext scene width height) index'
          \<le> VCMKernel_vcmKernelRadius (GenerateImage_integratorContext scene width height) index)"
proof (intro conjI impI)
  show "VCMKernel_vcmKernelRadius (GenerateImage_integratorContext scene width height) index
     = (5 / 1000 * scene_boundingSphereRadius scene)
         / Powf (real_of_int index + 1) (0.5 * (1 - 75 / 100))"
    by (simp add: VCMKernel_vcmKernelRadius_def GenerateImage_integratorContext_def Let_def
          VcmRadiusFactor_def VcmRadiusAlpha_def)
next
  assume a: "0 \<le> scene_boundingSphereRadius scene \<and> 0 \<le> index"
  then have "(5 / 1000 * scene_boundingSphereRadius scene)
               / Powf (real_of_int index + 1) (0.5 * (1 - 75 / 100))
             \<le> 5 / 1000 * scene_boundingSphereRadius scene"
    by (intro radius_schedule_le(2) [where k' = "real_of_int index + 1"]) simp_all
  then show "VCMKernel_vcmKernelRadius (GenerateImage_integratorContext scene width height) index
          \<le> 5 / 1000 * scene_boundingSphereRadius scene"
    by (simp add: VCMKernel_vcmKernelRadius_def GenerateImage_integratorContext_def Let_def
          VcmRadiusFactor_def VcmRadiusAlpha_def)
next
  assume a: "0 \<le> scene_boundingSphereRadius scene \<and> 0 \<le> index \<and> index \<le> index'"
  then have "(5 / 1000 * scene_boundingSphereRadius scene)
               / Powf (real_of_int index' + 1) (0.5 * (1 - 75 / 100))
             \<le> (5 / 1000 * scene_boundingSphereRadius scene)
               / Powf (real_of_int index + 1) (0.5 * (1 - 75 / 100))"
    by (intro radius_schedule_le(1)) simp_all
  then show "VCMKernel_vcmKernelRadius (GenerateImage_integratorContext scene width height) index'
          \<le> VCMKernel_vcmKernelRadius (GenerateImage_integratorContext scene width height) index"
    by (simp add: VCMKernel_vcmKernelRadius_def GenerateImage_integratorContext_def Let_def
          VcmRadiusFactor_def VcmRadiusAlpha_def)
qed

theorem radius_schedule_witness:
  "VCMKernel_vcmKernelRadius (GenerateImage_integratorContext example_scene 1 1) 0 = 1 / 100
   \<and> VCMKernel_vcmKernelRadius (GenerateImage_integratorContext example_scene 1 1) 1 \<le> 1 / 100
   \<and> VCMKernel_vcmKernelRadius (GenerateImage_integratorContext example_scene 1 1) 2
       \<le> VCMKernel_vcmKernelRadius (GenerateImage_integratorContext example_scene 1 1) 1"
proof -
  have R: "scene_boundingSphereRadius example_scene = 2"
    by (simp add: example_scene_def)
  note t = radius_schedule [of example_scene 1 1 1 2]
  have "VCMKernel_vcmKernelRadius (GenerateImage_integratorContext example_scene 1 1) 0 = 1 / 100"
    using radius_schedule [of example_scene 1 1 0 0, THEN conjunct1]
    by (simp add: R Powf_def)
  moreover have "VCMKernel_vcmKernelRadius (GenerateImage_integratorContext example_scene 1 1) 1
                   \<le> 1 / 100"
    using t [THEN conjunct2, THEN conjunct1] by (simp add: R)
  moreover have "VCMKernel_vcmKernelRadius (GenerateImage_integratorContext example_scene 1 1) 2
       \<le> VCMKernel_vcmKernelRadius (GenerateImage_integratorContext example_scene 1 1) 1"
    using t [THEN conjunct2, THEN conjunct2] by (simp add: R)
  ultimately show ?thesis
    by blast
qed

section \<open>Properties: the light subpath phase\<close>

lemma uint32_add2_less:
  fixes p M :: uint32
  assumes "unat p + 2 < 2 ^ 32" and "p + 2 < M"
  shows "unat p + 2 < unat M"
proof -
  have "unat (p + 2) = unat p + unat (2 :: uint32)"
    using assms(1) by (subst unat_add_lem [symmetric]) simp
  then have "unat (p + 2) = unat p + 2"
    by simp
  with assms(2) show ?thesis
    by (simp add: word_less_nat_alt)
qed

lemma uint32_unat_Suc:
  fixes p :: uint32
  assumes "unat p + 1 < 2 ^ 32"
  shows "unat (p + 1) = unat p + 1"
proof -
  have "unat (p + 1) = unat p + unat (1 :: uint32)"
    using assms by (subst unat_add_lem [symmetric]) simp
  then show ?thesis
    by simp
qed

lemma LightPathBounce_result:
  assumes "LightPathBounce lib vmWeight vcWeight lightPathCount pass state = (ok, pass', state')"
  shows "vp_pathEnds pass' = vp_pathEnds pass"
    and "ctx_maxPathLength (vp_context pass') = ctx_maxPathLength (vp_context pass)"
    and "vp_pathVertices pass' = vp_pathVertices pass
         \<or> (\<exists>v. vp_pathVertices pass' = vp_pathVertices pass @ [v]
                \<and> vtx_pathLength v = ps_pathLength state)"
    and "ok \<Longrightarrow> ps_pathLength state' = ps_pathLength state + 1"
proof -
  let ?ray = "MakeRay lib (ps_position state) (ps_direction state) (ps_throughput state) 0 0"
  let ?csp = "\<lambda>hit. CalculateSurfaceParams (shading lib) (vp_context pass) hit (UninitializedSurface lib)"
  have "vp_pathEnds pass' = vp_pathEnds pass
      \<and> ctx_maxPathLength (vp_context pass') = ctx_maxPathLength (vp_context pass)
      \<and> (vp_pathVertices pass' = vp_pathVertices pass
         \<or> (\<exists>v. vp_pathVertices pass' = vp_pathVertices pass @ [v]
                \<and> vtx_pathLength v = ps_pathLength state))
      \<and> (ok \<longrightarrow> ps_pathLength state' = ps_pathLength state + 1)"
  proof (cases "RayPick lib ?ray")
    case None
    with assms show ?thesis
      by (auto simp: LightPathBounce_def Let_def)
  next
    case (Some hit)
    show ?thesis
    proof (cases "?csp hit")
      case None
      with Some assms show ?thesis
        by (auto simp: LightPathBounce_def Let_def)
    next
      case (Some surface)
      let ?state1 = "UpdateMisAtLightHit state surface hit"
      let ?context1 = "ConnectLightPathToCamera lib (vp_context pass) ?state1 surface vmWeight
                         (real (unat lightPathCount))"
      obtain k c s where sc:
        "SampleBsdfScattering lib ?context1 surface vmWeight vcWeight ?state1 = (k, c, s)"
        by (cases "SampleBsdfScattering lib ?context1 surface vmWeight vcWeight ?state1") auto
      from assms \<open>RayPick lib ?ray = Some hit\<close> Some sc
      have eq: "ok = k" "state' = s"
        "pass' = pass\<lparr> vp_pathVertices := vp_pathVertices pass @
                    [\<lparr> vtx_throughput = ps_throughput ?state1,
                       vtx_pathLength = ps_pathLength ?state1,
                       vtx_dVCM = ps_dVCM ?state1, vtx_dVC = ps_dVC ?state1,
                       vtx_dVM = ps_dVM ?state1, vtx_surface = surface \<rparr>],
                  vp_deletememaybe := vp_deletememaybe pass @ [surf_position surface],
                  vp_context := c \<rparr>"
        by (auto simp: LightPathBounce_def Let_def)
      from SampleBsdfScattering_result [OF sc] eq show ?thesis
        by (simp add: UpdateMisAtLightHit_pathLength ConnectLightPathToCamera_maxPathLength)
    qed
  qed
  then show "vp_pathEnds pass' = vp_pathEnds pass"
    and "ctx_maxPathLength (vp_context pass') = ctx_maxPathLength (vp_context pass)"
    and "vp_pathVertices pass' = vp_pathVertices pass
         \<or> (\<exists>v. vp_pathVertices pass' = vp_pathVertices pass @ [v]
                \<and> vtx_pathLength v = ps_pathLength state)"
    and "ok \<Longrightarrow> ps_pathLength state' = ps_pathLength state + 1"
    by blast+
qed

text \<open>A stored vertex is good for the bound \<open>M\<close> when \<open>1 \<le> pathLength\<close> and \<open>pathLength + 2 < M\<close>.\<close>

lemma LightSubpath_invariant:
  assumes "\<forall>v \<in> set (vp_pathVertices pass).
             1 \<le> unat (vtx_pathLength v) \<and> unat (vtx_pathLength v) + 2 < unat M"
    and "ctx_maxPathLength (vp_context pass) = M"
    and "1 \<le> unat (ps_pathLength state)"
    and "unat (ps_pathLength state) + 2 < 2 ^ 32"
  shows "(\<forall>v \<in> set (vp_pathVertices (LightSubpath lib vmWeight vcWeight lightPathCount pass state)).
             1 \<le> unat (vtx_pathLength v) \<and> unat (vtx_pathLength v) + 2 < unat M)
       \<and> ctx_maxPathLength (vp_context (LightSubpath lib vmWeight vcWeight lightPathCount pass state)) = M
       \<and> vp_pathEnds (LightSubpath lib vmWeight vcWeight lightPathCount pass state) = vp_pathEnds pass
       \<and> length (vp_pathVertices pass)
            \<le> length (vp_pathVertices (LightSubpath lib vmWeight vcWeight lightPathCount pass state))"
  using assms
proof (induction lib vmWeight vcWeight lightPathCount pass state rule: LightSubpath.induct)
  case (1 lib vmWeight vcWeight lightPathCount pass state)
  show ?case
  proof (cases "ps_pathLength state + 2 < ctx_maxPathLength (vp_context pass)")
    case False
    with "1.prems" show ?thesis
      by (subst (1 2 3 4) LightSubpath.simps) simp
  next
    case True
    obtain ok pass' state' where
      b: "LightPathBounce lib vmWeight vcWeight lightPathCount pass state = (ok, pass', state')"
      by (cases "LightPathBounce lib vmWeight vcWeight lightPathCount pass state") auto
    note r = LightPathBounce_result [OF b]
    from True "1.prems"(2) have c: "ps_pathLength state + 2 < M"
      by simp
    from "1.prems"(4) c have lt: "unat (ps_pathLength state) + 2 < unat M"
      by (rule uint32_add2_less)
    have M: "unat M < 2 ^ 32"
      using unsigned_less [of M] by simp
    from r(3) lt "1.prems"(1,3)
    have good': "\<forall>v \<in> set (vp_pathVertices pass').
             1 \<le> unat (vtx_pathLength v) \<and> unat (vtx_pathLength v) + 2 < unat M"
      by auto
    from r(3) have len: "length (vp_pathVertices pass) \<le> length (vp_pathVertices pass')"
      by auto
    show ?thesis
    proof (cases ok)
      case False
      with True b good' len r "1.prems" show ?thesis
        by (subst (1 2 3 4) LightSubpath.simps) simp
    next
      case True
      have s1: "unat (ps_pathLength state') = unat (ps_pathLength state) + 1"
        using r(4) [OF True] lt M by (simp add: uint32_unat_Suc)
      have ih: "(\<forall>v \<in> set (vp_pathVertices (LightSubpath lib vmWeight vcWeight lightPathCount pass' state')).
             1 \<le> unat (vtx_pathLength v) \<and> unat (vtx_pathLength v) + 2 < unat M)
       \<and> ctx_maxPathLength (vp_context (LightSubpath lib vmWeight vcWeight lightPathCount pass' state')) = M
       \<and> vp_pathEnds (LightSubpath lib vmWeight vcWeight lightPathCount pass' state') = vp_pathEnds pass'
       \<and> length (vp_pathVertices pass')
            \<le> length (vp_pathVertices (LightSubpath lib vmWeight vcWeight lightPathCount pass' state'))"
      proof (rule "1.IH" [OF \<open>ps_pathLength state + 2 < ctx_maxPathLength (vp_context pass)\<close>
                             b [symmetric] refl True good'])
        show "ctx_maxPathLength (vp_context pass') = M"
          using r(2) "1.prems"(2) by simp
        show "1 \<le> unat (ps_pathLength state')"
          using s1 by simp
        show "unat (ps_pathLength state') + 2 < 2 ^ 32"
          using s1 lt M by simp
      qed
      have unfold: "LightSubpath lib vmWeight vcWeight lightPathCount pass state
                     = LightSubpath lib vmWeight vcWeight lightPathCount pass' state'"
        using \<open>ps_pathLength state + 2 < ctx_maxPathLength (vp_context pass)\<close> b True
        by (subst LightSubpath.simps) simp
      from ih len r(1) show ?thesis
        unfolding unfold by simp
    qed
  qed
qed

lemma LightSubpath_frame:
  "vp_pathEnds (LightSubpath lib vmWeight vcWeight lightPathCount pass state) = vp_pathEnds pass
   \<and> ctx_maxPathLength (vp_context (LightSubpath lib vmWeight vcWeight lightPathCount pass state))
       = ctx_maxPathLength (vp_context pass)
   \<and> length (vp_pathVertices pass)
        \<le> length (vp_pathVertices (LightSubpath lib vmWeight vcWeight lightPathCount pass state))"
proof (induction lib vmWeight vcWeight lightPathCount pass state rule: LightSubpath.induct)
  case (1 lib vmWeight vcWeight lightPathCount pass state)
  show ?case
  proof (cases "ps_pathLength state + 2 < ctx_maxPathLength (vp_context pass)")
    case False
    then show ?thesis
      by (subst (1 2 3) LightSubpath.simps) simp
  next
    case True
    obtain ok pass' state' where
      b: "LightPathBounce lib vmWeight vcWeight lightPathCount pass state = (ok, pass', state')"
      by (cases "LightPathBounce lib vmWeight vcWeight lightPathCount pass state") auto
    note r = LightPathBounce_result [OF b]
    from r(3) have len: "length (vp_pathVertices pass) \<le> length (vp_pathVertices pass')"
      by auto
    show ?thesis
    proof (cases ok)
      case False
      with True b len r show ?thesis
        by (subst (1 2 3) LightSubpath.simps) simp
    next
      case ok: True
      have unfold: "LightSubpath lib vmWeight vcWeight lightPathCount pass state
                     = LightSubpath lib vmWeight vcWeight lightPathCount pass' state'"
        using True b ok by (subst LightSubpath.simps) simp
      from "1.IH" [OF True b [symmetric] refl ok] len r(1,2) show ?thesis
        unfolding unfold by simp
    qed
  qed
qed

lemma GenerateLightSample_result:
  assumes "GenerateLightSample lib context vcWeight = (context', state)"
  shows "ctx_maxPathLength context' = ctx_maxPathLength context"
    and "ps_pathLength state = 1"
    and "ps_isAreaMeasure state = 0"
  using assms
  by (auto simp: GenerateLightSample_def Let_def split: prod.splits)

lemma LightPath_invariant:
  fixes lib :: "'r VcmLib" and vmWeight vcWeight :: float and lightPathCount :: uint32
    and pass :: "'r VcmPass"
  assumes good: "\<forall>v \<in> set (vp_pathVertices pass).
             1 \<le> unat (vtx_pathLength v) \<and> unat (vtx_pathLength v) + 2 < unat M"
    and M: "ctx_maxPathLength (vp_context pass) = M"
    and sorted: "sorted (vp_pathEnds pass)"
    and bound: "\<forall>e \<in> set (vp_pathEnds pass). e \<le> length (vp_pathVertices pass)"
  defines "pass' \<equiv> LightPath lib vmWeight vcWeight lightPathCount pass"
  shows "\<forall>v \<in> set (vp_pathVertices pass').
             1 \<le> unat (vtx_pathLength v) \<and> unat (vtx_pathLength v) + 2 < unat M"
    and "ctx_maxPathLength (vp_context pass') = M"
    and "sorted (vp_pathEnds pass')"
    and "\<forall>e \<in> set (vp_pathEnds pass'). e \<le> length (vp_pathVertices pass')"
    and "vp_pathEnds pass' = vp_pathEnds pass @ [length (vp_pathVertices pass')]"
proof -
  obtain context1 state where g: "GenerateLightSample lib (vp_context pass) vcWeight = (context1, state)"
    by (cases "GenerateLightSample lib (vp_context pass) vcWeight") auto
  let ?pass1 = "pass\<lparr> vp_context := context1 \<rparr>"
  let ?pass2 = "LightSubpath lib vmWeight vcWeight lightPathCount ?pass1 state"
  have eq: "pass' = ?pass2\<lparr> vp_pathEnds := vp_pathEnds ?pass2 @ [length (vp_pathVertices ?pass2)] \<rparr>"
    by (simp add: pass'_def LightPath_def g Let_def)
  note gr = GenerateLightSample_result [OF g]
  have inv: "(\<forall>v \<in> set (vp_pathVertices ?pass2).
             1 \<le> unat (vtx_pathLength v) \<and> unat (vtx_pathLength v) + 2 < unat M)"
    using LightSubpath_invariant [of ?pass1 M state lib vmWeight vcWeight lightPathCount]
      good M gr by simp
  note fr = LightSubpath_frame [of lib vmWeight vcWeight lightPathCount ?pass1 state]
  from inv eq show "\<forall>v \<in> set (vp_pathVertices pass').
             1 \<le> unat (vtx_pathLength v) \<and> unat (vtx_pathLength v) + 2 < unat M"
    by simp
  from fr eq gr M show "ctx_maxPathLength (vp_context pass') = M"
    by simp
  from fr have ends: "vp_pathEnds ?pass2 = vp_pathEnds pass"
    and len: "length (vp_pathVertices pass) \<le> length (vp_pathVertices ?pass2)"
    by simp_all
  from bound len have b2: "\<forall>e \<in> set (vp_pathEnds pass). e \<le> length (vp_pathVertices ?pass2)"
    by auto
  from sorted b2 eq ends show "sorted (vp_pathEnds pass')"
    by (simp add: sorted_append)
  from b2 eq ends show "\<forall>e \<in> set (vp_pathEnds pass'). e \<le> length (vp_pathVertices pass')"
    by simp
  from eq ends show "vp_pathEnds pass' = vp_pathEnds pass @ [length (vp_pathVertices pass')]"
    by simp
qed

lemma LightPaths_fold_invariant:
  fixes lib :: "'r VcmLib" and vmWeight vcWeight :: float and lightPathCount :: uint32
    and pass :: "'r VcmPass" and scans :: "nat list"
  assumes "\<forall>v \<in> set (vp_pathVertices pass).
             1 \<le> unat (vtx_pathLength v) \<and> unat (vtx_pathLength v) + 2 < unat M"
    and "ctx_maxPathLength (vp_context pass) = M"
    and "sorted (vp_pathEnds pass)"
    and "\<forall>e \<in> set (vp_pathEnds pass). e \<le> length (vp_pathVertices pass)"
    and "vp_pathEnds pass \<noteq> [] \<longrightarrow> last (vp_pathEnds pass) = length (vp_pathVertices pass)"
  defines "pass' \<equiv> fold (\<lambda>scan. LightPath lib vmWeight vcWeight lightPathCount) scans pass"
  shows "(\<forall>v \<in> set (vp_pathVertices pass').
             1 \<le> unat (vtx_pathLength v) \<and> unat (vtx_pathLength v) + 2 < unat M)
       \<and> ctx_maxPathLength (vp_context pass') = M
       \<and> sorted (vp_pathEnds pass')
       \<and> (\<forall>e \<in> set (vp_pathEnds pass'). e \<le> length (vp_pathVertices pass'))
       \<and> (vp_pathEnds pass' \<noteq> [] \<longrightarrow> last (vp_pathEnds pass') = length (vp_pathVertices pass'))
       \<and> length (vp_pathEnds pass') = length (vp_pathEnds pass) + length scans"
  using assms(1-5) unfolding pass'_def
proof (induction scans arbitrary: pass)
  case Nil
  then show ?case by simp
next
  case (Cons scan scans)
  let ?p = "LightPath lib vmWeight vcWeight lightPathCount pass"
  note lp = LightPath_invariant [OF Cons.prems(1-4), of lib vmWeight vcWeight lightPathCount]
  have last: "vp_pathEnds ?p \<noteq> [] \<longrightarrow> last (vp_pathEnds ?p) = length (vp_pathVertices ?p)"
    using lp(5) by simp
  have len: "length (vp_pathEnds ?p) = length (vp_pathEnds pass) + 1"
    using lp(5) by simp
  from Cons.IH [OF lp(1-4) last] len show ?case
    by simp
qed

lemma lightPhase_invariant:
  fixes lib :: "'r VcmLib"
  defines "pass \<equiv> \<lambda>(lib :: 'r VcmLib) context kernelRadius width height.
             VertexConnectionAndMerging_lightPhase lib context kernelRadius width height"
  shows "(\<forall>v \<in> set (vp_pathVertices (pass lib context kernelRadius width height)).
             1 \<le> unat (vtx_pathLength v)
             \<and> unat (vtx_pathLength v) + 2 < unat (ctx_maxPathLength context))
       \<and> ctx_maxPathLength (vp_context (pass lib context kernelRadius width height))
           = ctx_maxPathLength context
       \<and> sorted (vp_pathEnds (pass lib context kernelRadius width height))
       \<and> (\<forall>e \<in> set (vp_pathEnds (pass lib context kernelRadius width height)).
             e \<le> length (vp_pathVertices (pass lib context kernelRadius width height)))
       \<and> (vp_pathEnds (pass lib context kernelRadius width height) \<noteq> [] \<longrightarrow>
             last (vp_pathEnds (pass lib context kernelRadius width height))
               = length (vp_pathVertices (pass lib context kernelRadius width height)))
       \<and> length (vp_pathEnds (pass lib context kernelRadius width height)) = unat (width * height)"
  unfolding pass_def VertexConnectionAndMerging_lightPhase_def Let_def LightPaths_def
  using LightPaths_fold_invariant
          [of "\<lparr> vp_context = context, vp_pathVertices = [], vp_pathEnds = [],
                 vp_deletememaybe = [] \<rparr>" "ctx_maxPathLength context"
              lib _ _ "width * height" "[0 ..< unat (width * height)]"]
  by simp

lemma VertexConnectionAndMerging_pathVertices:
  "fst (snd (VertexConnectionAndMerging lib grid context pathVertices hashGrid kernelRadius width height))
     = vp_pathVertices (VertexConnectionAndMerging_lightPhase lib context kernelRadius width height)"
  by (simp add: VertexConnectionAndMerging_def Let_def)

lemma LightPathBounce_hit:
  assumes "RayPick lib (MakeRay lib (ps_position state) (ps_direction state)
                          (ps_throughput state) 0 0) = Some hit"
    and "CalculateSurfaceParams (shading lib) (vp_context pass) hit (UninitializedSurface lib)
           = Some surface"
  shows "vp_pathVertices (fst (snd (LightPathBounce lib vmWeight vcWeight lightPathCount pass state)))
           = vp_pathVertices pass @
               [\<lparr> vtx_throughput = ps_throughput state,
                  vtx_pathLength = ps_pathLength state,
                  vtx_dVCM = ps_dVCM (UpdateMisAtLightHit state surface hit),
                  vtx_dVC = ps_dVC (UpdateMisAtLightHit state surface hit),
                  vtx_dVM = ps_dVM (UpdateMisAtLightHit state surface hit),
                  vtx_surface = surface \<rparr>]"
  using assms
  by (simp add: LightPathBounce_def Let_def UpdateMisAtLightHit_def split: prod.splits)

lemma LightSubpath_stores:
  assumes c: "ps_pathLength state + 2 < ctx_maxPathLength (vp_context pass)"
    and hit: "RayPick lib (MakeRay lib (ps_position state) (ps_direction state)
                          (ps_throughput state) 0 0) = Some hit"
    and surface: "CalculateSurfaceParams (shading lib) (vp_context pass) hit
                    (UninitializedSurface lib) = Some surface"
  shows "length (vp_pathVertices pass)
           < length (vp_pathVertices (LightSubpath lib vmWeight vcWeight lightPathCount pass state))"
proof -
  obtain ok pass' state' where
    b: "LightPathBounce lib vmWeight vcWeight lightPathCount pass state = (ok, pass', state')"
    by (cases "LightPathBounce lib vmWeight vcWeight lightPathCount pass state") auto
  from LightPathBounce_hit [OF hit surface, of vmWeight vcWeight lightPathCount] b
  have len: "length (vp_pathVertices pass') = length (vp_pathVertices pass) + 1"
    by simp
  have "LightSubpath lib vmWeight vcWeight lightPathCount pass state
          = (if ok then LightSubpath lib vmWeight vcWeight lightPathCount pass' state' else pass')"
    using c b by (subst LightSubpath.simps) simp
  with len LightSubpath_frame [of lib vmWeight vcWeight lightPathCount pass' state']
  show ?thesis
    by (cases ok) simp_all
qed

lemma example_RayPick:
  "\<exists>hit. RayPick example_lib (MakeRay example_lib position (Float3 0 0 (- 1)) throughput 0 0)
             = Some hit
         \<and> hit_baryCoords hit = Float2 (1 / 4) (1 / 4)
         \<and> hit_viewDirection hit = Float3 0 0 1"
  by (simp add: RayPick_def example_lib_def Let_def)

lemma example_CalculateSurfaceParams:
  assumes "ctx_scene context = example_scene"
    and "hit_baryCoords hit = Float2 (1 / 4) (1 / 4)"
    and "hit_viewDirection hit = Float3 0 0 1"
  shows "\<exists>surface. CalculateSurfaceParams example_shading context hit initial = Some surface"
proof -
  have "CalculateSurfaceParams example_shading context hit initial \<noteq> None"
    using assms by (simp add: CalculateSurfaceParams_None example_InterpolatedNormal)
  then show ?thesis
    by blast
qed

lemma example_lightPhase_stores:
  "vp_pathVertices (VertexConnectionAndMerging_lightPhase example_lib example_context
                      kernelRadius 1 1) \<noteq> []"
proof -
  let ?N = "1 :: uint32"
  let ?vm = "Pi * (kernelRadius * kernelRadius) * real (unat (?N * ?N))"
  let ?pass0 = "\<lparr> vp_context = example_context, vp_pathVertices = [], vp_pathEnds = [],
                   vp_deletememaybe = [] \<rparr>"
  let ?g = "GenerateLightSample example_lib example_context (1 / ?vm)"
  have st: "ps_direction (snd ?g) = Float3 0 0 (- 1)" "ps_pathLength (snd ?g) = 1"
    and c1: "ctx_scene (fst ?g) = example_scene" "ctx_maxPathLength (fst ?g) = MaxBounceCount"
    by (simp_all add: GenerateLightSample_def example_lib_def example_context_def Let_def)
  let ?pass1 = "?pass0\<lparr> vp_context := fst ?g \<rparr>"
  from example_RayPick [of "ps_position (snd ?g)" "ps_throughput (snd ?g)"] st
  obtain hit where hit:
    "RayPick example_lib (MakeRay example_lib (ps_position (snd ?g)) (ps_direction (snd ?g))
                            (ps_throughput (snd ?g)) 0 0) = Some hit"
    "hit_baryCoords hit = Float2 (1 / 4) (1 / 4)" "hit_viewDirection hit = Float3 0 0 1"
    by auto
  from example_CalculateSurfaceParams [OF c1(1) hit(2,3)]
  obtain surface where surface:
    "CalculateSurfaceParams (shading example_lib) (vp_context ?pass1) hit
       (UninitializedSurface example_lib) = Some surface"
    by (auto simp: example_lib_def)
  have c: "ps_pathLength (snd ?g) + 2 < ctx_maxPathLength (vp_context ?pass1)"
    using st c1 by (simp add: MaxBounceCount_def)
  from LightSubpath_stores [OF c hit(1) surface, of "?vm" "1 / ?vm" "?N * ?N"]
  have "vp_pathVertices (LightSubpath example_lib ?vm (1 / ?vm) (?N * ?N) ?pass1 (snd ?g)) \<noteq> []"
    by auto
  then show ?thesis
    by (simp add: VertexConnectionAndMerging_lightPhase_def LightPaths_def LightPath_def Let_def
          case_prod_beta)
qed

text \<open>
  C6. Every vertex that a call of \<^verbatim>\<open>VertexConnectionAndMerging\<close> leaves in \<^verbatim>\<open>pathVertices\<close>
  has \<open>1 \<le> pathLength < maxPathLength - 1\<close>; more precisely
  \<open>pathLength + 2 < maxPathLength\<close>, the condition of the loop that stores it.
\<close>

theorem stored_vertex_pathLength:
  "\<forall>v \<in> set (fst (snd (VertexConnectionAndMerging lib grid context pathVertices hashGrid
                          kernelRadius width height))).
      1 \<le> unat (vtx_pathLength v)
      \<and> unat (vtx_pathLength v) < unat (ctx_maxPathLength context) - 1
      \<and> unat (vtx_pathLength v) + 2 < unat (ctx_maxPathLength context)"
  using lightPhase_invariant [of lib "context" kernelRadius width height]
  by (auto simp: VertexConnectionAndMerging_pathVertices)

theorem stored_vertex_pathLength_witness:
  "fst (snd (VertexConnectionAndMerging example_lib example_grid example_context [] ()
               (1 / 100) 1 1)) \<noteq> []
   \<and> 1 \<le> unat (vtx_pathLength (hd (fst (snd (VertexConnectionAndMerging example_lib example_grid
               example_context [] () (1 / 100) 1 1)))))
   \<and> unat (vtx_pathLength (hd (fst (snd (VertexConnectionAndMerging example_lib example_grid
               example_context [] () (1 / 100) 1 1))))) < unat MaxBounceCount - 1"
proof -
  let ?vs = "fst (snd (VertexConnectionAndMerging example_lib example_grid example_context [] ()
               (1 / 100) 1 1))"
  have ne: "?vs \<noteq> []"
    using example_lightPhase_stores [of "1 / 100"]
    by (simp add: VertexConnectionAndMerging_pathVertices)
  then have "hd ?vs \<in> set ?vs"
    by simp
  with stored_vertex_pathLength [of example_lib example_grid example_context "[]" "()" "1 / 100" 1 1]
  have "1 \<le> unat (vtx_pathLength (hd ?vs))
      \<and> unat (vtx_pathLength (hd ?vs)) < unat (ctx_maxPathLength example_context) - 1"
    by blast
  with ne show ?thesis
    by (simp add: example_context_def)
qed

text \<open>
  C7. After the light subpath phase, \<^verbatim>\<open>pathEnds\<close> has \<^verbatim>\<open>lightPathCount\<close> entries (the
  32-bit product \<^verbatim>\<open>width * height\<close>), it is sorted in non-decreasing order, every entry
  is at most the length of \<^verbatim>\<open>pathVertices\<close>, and the last entry, when there is one, is
  that length.
\<close>

theorem pathEnds_invariant:
  "length (vp_pathEnds (VertexConnectionAndMerging_lightPhase lib context kernelRadius width height))
     = unat (width * height)
   \<and> sorted (vp_pathEnds (VertexConnectionAndMerging_lightPhase lib context kernelRadius width height))
   \<and> (\<forall>e \<in> set (vp_pathEnds (VertexConnectionAndMerging_lightPhase lib context kernelRadius
                                 width height)).
         e \<le> length (vp_pathVertices (VertexConnectionAndMerging_lightPhase lib context
                                          kernelRadius width height)))
   \<and> (vp_pathEnds (VertexConnectionAndMerging_lightPhase lib context kernelRadius width height) \<noteq> []
        \<longrightarrow> last (vp_pathEnds (VertexConnectionAndMerging_lightPhase lib context kernelRadius
                                    width height))
              = length (vp_pathVertices (VertexConnectionAndMerging_lightPhase lib context
                                           kernelRadius width height)))"
  using lightPhase_invariant [of lib "context" kernelRadius width height]
  by simp

theorem pathEnds_invariant_witness:
  "length (vp_pathEnds (VertexConnectionAndMerging_lightPhase example_lib example_context
                          (1 / 100) 2 1)) = 2
   \<and> vp_pathEnds (VertexConnectionAndMerging_lightPhase example_lib example_context (1 / 100) 2 1) ! 0
       \<le> vp_pathEnds (VertexConnectionAndMerging_lightPhase example_lib example_context (1 / 100) 2 1) ! 1
   \<and> vp_pathEnds (VertexConnectionAndMerging_lightPhase example_lib example_context (1 / 100) 2 1) ! 1
       = length (vp_pathVertices (VertexConnectionAndMerging_lightPhase example_lib example_context
                                    (1 / 100) 2 1))"
proof -
  let ?p = "VertexConnectionAndMerging_lightPhase example_lib example_context (1 / 100) 2 1"
  note t = pathEnds_invariant [of example_lib example_context "1 / 100" 2 1]
  from t have len: "length (vp_pathEnds ?p) = 2"
    by simp
  from t have "sorted (vp_pathEnds ?p)"
    by blast
  with len have mono: "vp_pathEnds ?p ! 0 \<le> vp_pathEnds ?p ! 1"
    by (simp add: sorted_iff_nth_mono)
  from len have ne: "vp_pathEnds ?p \<noteq> []"
    by auto
  with t have "last (vp_pathEnds ?p) = length (vp_pathVertices ?p)"
    by blast
  with len ne have "vp_pathEnds ?p ! 1 = length (vp_pathVertices ?p)"
    by (simp add: last_conv_nth)
  with len mono show ?thesis
    by blast
qed

section \<open>Properties: the MIS update at a hit\<close>

lemma UpdateMisAtLightHit_eq:
  "UpdateMisAtLightHit state surface hit =
     state\<lparr> ps_dVCM :=
               (if ps_pathLength state > 1 \<or> ps_isAreaMeasure state \<noteq> 0
                then ps_dVCM state * LengthSquared (sub3 (ps_position state) (surf_position surface))
                else ps_dVCM state)
                 / \<bar>Dot (surf_perturbedNormal surface) (hit_viewDirection hit)\<bar>,
             ps_dVC := ps_dVC state / \<bar>Dot (surf_perturbedNormal surface) (hit_viewDirection hit)\<bar>,
             ps_dVM := ps_dVM state / \<bar>Dot (surf_perturbedNormal surface) (hit_viewDirection hit)\<bar> \<rparr>"
  by (simp add: UpdateMisAtLightHit_def Let_def Absf_def)

lemma UpdateMisAtCameraHit_eq:
  "UpdateMisAtCameraHit state surface hit =
     state\<lparr> ps_dVCM :=
               ps_dVCM state * LengthSquared (sub3 (ps_position state) (surf_position surface))
                 / \<bar>Dot (surf_geometricNormal surface) (hit_viewDirection hit)\<bar>,
             ps_dVC := ps_dVC state / \<bar>Dot (surf_geometricNormal surface) (hit_viewDirection hit)\<bar>,
             ps_dVM := ps_dVM state / \<bar>Dot (surf_geometricNormal surface) (hit_viewDirection hit)\<bar> \<rparr>"
  by (simp add: UpdateMisAtCameraHit_def Let_def Absf_def)

lemma example_at_hit_values:
  "LengthSquared (sub3 (ps_position example_light_state) (surf_position example_surface)) = 4"
  "LengthSquared (sub3 (surf_position example_surface) (ps_position example_light_state)) = 4"
  "Dot (surf_perturbedNormal example_surface) (hit_viewDirection example_oblique_hit) = 3 / 5"
  "Dot (surf_geometricNormal example_surface) (hit_viewDirection example_oblique_hit) = 4 / 5"
  by (simp_all add: example_light_state_def example_surface_def example_oblique_hit_def
        LengthSquared_def)

lemma example_camera_state_simps:
  "ps_position example_camera_state = ps_position example_light_state"
  "ps_dVCM example_camera_state = 4" "ps_dVC example_camera_state = 1"
  "ps_dVM example_camera_state = 2" "ps_pathLength example_camera_state = 1"
  "ps_isAreaMeasure example_camera_state = 1"
  "ps_dVCM example_light_state = 4" "ps_dVC example_light_state = 1"
  "ps_dVM example_light_state = 2" "ps_pathLength example_light_state = 1"
  "ps_isAreaMeasure example_light_state = 0"
  by (simp_all add: example_camera_state_def example_light_state_def)

text \<open>
  C1, as the spec states it, fails. At the first hit of a light path from the image-based
  light (path length 1, not an area measure) the code does not multiply \<open>dVCM\<close> by \<open>L\<^sup>2\<close>,
  the spec's rule does; at the first hit of a camera path (an area measure) the code
  multiplies by \<open>L\<^sup>2\<close> and divides by the cosine at the geometric normal, the spec's rule
  does not multiply and divides by the cosine at the shading normal.
\<close>

theorem at_hit_update_counterexample:
  "ps_dVCM (UpdateMisAtLightHit example_light_state example_surface example_oblique_hit) = 20 / 3
   \<and> ps_dVCM (MisUpdateAtHit_spec example_light_state example_surface example_oblique_hit) = 80 / 3
   \<and> ps_dVCM (UpdateMisAtCameraHit example_camera_state example_surface example_oblique_hit) = 20
   \<and> ps_dVCM (MisUpdateAtHit_spec example_camera_state example_surface example_oblique_hit) = 20 / 3
   \<and> UpdateMisAtLightHit example_light_state example_surface example_oblique_hit
       \<noteq> MisUpdateAtHit_spec example_light_state example_surface example_oblique_hit
   \<and> UpdateMisAtCameraHit example_camera_state example_surface example_oblique_hit
       \<noteq> MisUpdateAtHit_spec example_camera_state example_surface example_oblique_hit"
proof -
  have l: "ps_dVCM (UpdateMisAtLightHit example_light_state example_surface example_oblique_hit) = 20 / 3"
    by (simp add: UpdateMisAtLightHit_eq example_at_hit_values example_camera_state_simps)
  have ls: "ps_dVCM (MisUpdateAtHit_spec example_light_state example_surface example_oblique_hit) = 80 / 3"
    by (simp add: MisUpdateAtHit_spec_def Let_def example_at_hit_values example_camera_state_simps)
  have c: "ps_dVCM (UpdateMisAtCameraHit example_camera_state example_surface example_oblique_hit) = 20"
    by (simp add: UpdateMisAtCameraHit_eq example_at_hit_values example_camera_state_simps)
  have cs: "ps_dVCM (MisUpdateAtHit_spec example_camera_state example_surface example_oblique_hit) = 20 / 3"
    by (simp add: MisUpdateAtHit_spec_def Let_def example_at_hit_values example_camera_state_simps)
  have "UpdateMisAtLightHit example_light_state example_surface example_oblique_hit
       \<noteq> MisUpdateAtHit_spec example_light_state example_surface example_oblique_hit"
  proof
    assume "UpdateMisAtLightHit example_light_state example_surface example_oblique_hit
       = MisUpdateAtHit_spec example_light_state example_surface example_oblique_hit"
    then have "(20 / 3 :: real) = 80 / 3"
      using l ls by simp
    then show False
      by simp
  qed
  moreover have "UpdateMisAtCameraHit example_camera_state example_surface example_oblique_hit
       \<noteq> MisUpdateAtHit_spec example_camera_state example_surface example_oblique_hit"
  proof
    assume "UpdateMisAtCameraHit example_camera_state example_surface example_oblique_hit
       = MisUpdateAtHit_spec example_camera_state example_surface example_oblique_hit"
    then have "(20 :: real) = 20 / 3"
      using c cs by simp
    then show False
      by simp
  qed
  ultimately show ?thesis
    using l ls c cs by blast
qed

text \<open>
  C1, amended. At a new hit of a light subpath, \<open>dVCM\<close> is multiplied by \<open>L\<^sup>2\<close> exactly
  when the segment is not the first one (\<open>pathLength > 1\<close>) or the source is an area
  measure, and then \<open>dVCM\<close>, \<open>dVC\<close> and \<open>dVM\<close> are divided by
  \<open>|dot(perturbedNormal, viewDir)|\<close>. At a new hit of a camera subpath \<open>dVCM\<close> is always
  multiplied by \<open>L\<^sup>2\<close>, and the three are divided by \<open>|dot(geometricNormal, viewDir)|\<close>.
  A light subpath starts with the area-measure flag 0, a camera subpath with 1.
\<close>

theorem at_hit_update:
  "UpdateMisAtLightHit state surface hit =
     state\<lparr> ps_dVCM :=
               (if ps_pathLength state > 1 \<or> ps_isAreaMeasure state \<noteq> 0
                then ps_dVCM state * LengthSquared (sub3 (ps_position state) (surf_position surface))
                else ps_dVCM state)
                 / \<bar>Dot (surf_perturbedNormal surface) (hit_viewDirection hit)\<bar>,
             ps_dVC := ps_dVC state / \<bar>Dot (surf_perturbedNormal surface) (hit_viewDirection hit)\<bar>,
             ps_dVM := ps_dVM state / \<bar>Dot (surf_perturbedNormal surface) (hit_viewDirection hit)\<bar> \<rparr>
   \<and> UpdateMisAtCameraHit state surface hit =
     state\<lparr> ps_dVCM :=
               ps_dVCM state * LengthSquared (sub3 (ps_position state) (surf_position surface))
                 / \<bar>Dot (surf_geometricNormal surface) (hit_viewDirection hit)\<bar>,
             ps_dVC := ps_dVC state / \<bar>Dot (surf_geometricNormal surface) (hit_viewDirection hit)\<bar>,
             ps_dVM := ps_dVM state / \<bar>Dot (surf_geometricNormal surface) (hit_viewDirection hit)\<bar> \<rparr>
   \<and> ps_isAreaMeasure (snd (GenerateLightSample lib context vcWeight)) = 0
   \<and> ps_isAreaMeasure (snd (GenerateCameraSample lib context x y lightPathCount)) = 1"
  by (simp add: UpdateMisAtLightHit_eq UpdateMisAtCameraHit_eq)
     (simp add: GenerateLightSample_def GenerateCameraSample_def Let_def case_prod_beta)

theorem at_hit_update_witness:
  "UpdateMisAtLightHit example_light_state example_surface example_oblique_hit
     = example_light_state\<lparr> ps_dVCM := 20 / 3, ps_dVC := 5 / 3, ps_dVM := 10 / 3 \<rparr>
   \<and> UpdateMisAtLightHit (example_light_state\<lparr> ps_pathLength := 2 \<rparr>) example_surface
         example_oblique_hit
     = example_light_state\<lparr> ps_pathLength := 2, ps_dVCM := 80 / 3, ps_dVC := 5 / 3,
                              ps_dVM := 10 / 3 \<rparr>
   \<and> UpdateMisAtCameraHit example_camera_state example_surface example_oblique_hit
     = example_camera_state\<lparr> ps_dVCM := 20, ps_dVC := 5 / 4, ps_dVM := 5 / 2 \<rparr>"
proof -
  note first = at_hit_update [of example_light_state example_surface example_oblique_hit,
                              THEN conjunct1]
  note later = at_hit_update [of "example_light_state\<lparr> ps_pathLength := 2 \<rparr>" example_surface
                                 example_oblique_hit, THEN conjunct1]
  note camera = at_hit_update [of example_camera_state example_surface example_oblique_hit,
                               THEN conjunct2, THEN conjunct1]
  have "UpdateMisAtLightHit example_light_state example_surface example_oblique_hit
     = example_light_state\<lparr> ps_dVCM := 20 / 3, ps_dVC := 5 / 3, ps_dVM := 10 / 3 \<rparr>"
    by (subst first) (simp add: example_at_hit_values example_camera_state_simps)
  moreover have "UpdateMisAtLightHit (example_light_state\<lparr> ps_pathLength := 2 \<rparr>) example_surface
         example_oblique_hit
     = example_light_state\<lparr> ps_pathLength := 2, ps_dVCM := 80 / 3, ps_dVC := 5 / 3,
                              ps_dVM := 10 / 3 \<rparr>"
    by (subst later) (simp add: example_at_hit_values example_camera_state_simps)
  moreover have "UpdateMisAtCameraHit example_camera_state example_surface example_oblique_hit
     = example_camera_state\<lparr> ps_dVCM := 20, ps_dVC := 5 / 4, ps_dVM := 5 / 2 \<rparr>"
    by (subst camera) (simp add: example_at_hit_values example_camera_state_simps)
  ultimately show ?thesis
    by blast
qed

lemma CameraPathBounce_hit:
  assumes "RayPick lib (MakeRay lib (ps_position cameraPathState) (ps_direction cameraPathState)
                          (ps_throughput cameraPathState) 0 0) = Some hit"
    and "CalculateSurfaceParams (shading lib) context hit (UninitializedSurface lib) = Some surface"
  shows "\<exists>context1 color1.
           CameraPathBounce lib grid vmWeight vcWeight vmNormalization index pass hashGrid
             context cameraPathState color
           = (case SampleBsdfScattering lib context1 surface vmWeight vcWeight
                     (UpdateMisAtCameraHit cameraPathState surface hit) of
                (scattered, context2, state2) \<Rightarrow> (scattered, context2, state2, color1))"
  using assms
  unfolding CameraPathBounce_def
  by (simp add: Let_def case_prod_beta) blast

text \<open>
  C5. The cosine by which the at-hit update divides is taken at the perturbed (shading)
  normal on the light subpath and at the geometric normal on the camera subpath: the
  light update does not depend on the geometric normal, the camera update does not depend
  on the perturbed normal. Every bounce applies them: at a hit with a valid surface, the
  light bounce stores the vertex with the quantities of the light update, and the camera
  bounce scatters from the state of the camera update.
\<close>

theorem at_hit_normal_asymmetry:
  "ps_dVC (UpdateMisAtLightHit state surface hit)
     = ps_dVC state / \<bar>Dot (surf_perturbedNormal surface) (hit_viewDirection hit)\<bar>
   \<and> ps_dVM (UpdateMisAtLightHit state surface hit)
     = ps_dVM state / \<bar>Dot (surf_perturbedNormal surface) (hit_viewDirection hit)\<bar>
   \<and> UpdateMisAtLightHit state (surface\<lparr> surf_geometricNormal := n \<rparr>) hit
     = UpdateMisAtLightHit state surface hit
   \<and> ps_dVC (UpdateMisAtCameraHit state surface hit)
     = ps_dVC state / \<bar>Dot (surf_geometricNormal surface) (hit_viewDirection hit)\<bar>
   \<and> ps_dVM (UpdateMisAtCameraHit state surface hit)
     = ps_dVM state / \<bar>Dot (surf_geometricNormal surface) (hit_viewDirection hit)\<bar>
   \<and> UpdateMisAtCameraHit state (surface\<lparr> surf_perturbedNormal := n \<rparr>) hit
     = UpdateMisAtCameraHit state surface hit
   \<and> (RayPick lib (MakeRay lib (ps_position state) (ps_direction state) (ps_throughput state) 0 0)
         = Some hit
       \<and> CalculateSurfaceParams (shading lib) (vp_context pass) hit (UninitializedSurface lib)
         = Some surface
       \<longrightarrow>
         vp_pathVertices (fst (snd (LightPathBounce lib vmWeight vcWeight lightPathCount pass state)))
           = vp_pathVertices pass @
               [\<lparr> vtx_throughput = ps_throughput state,
                  vtx_pathLength = ps_pathLength state,
                  vtx_dVCM = ps_dVCM (UpdateMisAtLightHit state surface hit),
                  vtx_dVC = ps_dVC (UpdateMisAtLightHit state surface hit),
                  vtx_dVM = ps_dVM (UpdateMisAtLightHit state surface hit),
                  vtx_surface = surface \<rparr>]
         \<and> (\<exists>context1 color1.
               CameraPathBounce lib grid vmWeight vcWeight vmNormalization index pass hashGrid
                 (vp_context pass) state color
               = (case SampleBsdfScattering lib context1 surface vmWeight vcWeight
                         (UpdateMisAtCameraHit state surface hit) of
                    (scattered, context2, state2) \<Rightarrow> (scattered, context2, state2, color1))))"
proof (intro conjI impI; (elim conjE)?)
  assume h: "RayPick lib (MakeRay lib (ps_position state) (ps_direction state)
                            (ps_throughput state) 0 0) = Some hit"
    "CalculateSurfaceParams (shading lib) (vp_context pass) hit (UninitializedSurface lib)
         = Some surface"
  from LightPathBounce_hit [OF h]
  show "vp_pathVertices (fst (snd (LightPathBounce lib vmWeight vcWeight lightPathCount pass state)))
           = vp_pathVertices pass @
               [\<lparr> vtx_throughput = ps_throughput state,
                  vtx_pathLength = ps_pathLength state,
                  vtx_dVCM = ps_dVCM (UpdateMisAtLightHit state surface hit),
                  vtx_dVC = ps_dVC (UpdateMisAtLightHit state surface hit),
                  vtx_dVM = ps_dVM (UpdateMisAtLightHit state surface hit),
                  vtx_surface = surface \<rparr>]" .
  from CameraPathBounce_hit [OF h]
  show "\<exists>context1 color1.
               CameraPathBounce lib grid vmWeight vcWeight vmNormalization index pass hashGrid
                 (vp_context pass) state color
               = (case SampleBsdfScattering lib context1 surface vmWeight vcWeight
                         (UpdateMisAtCameraHit state surface hit) of
                    (scattered, context2, state2) \<Rightarrow> (scattered, context2, state2, color1))" .
qed (simp_all add: UpdateMisAtLightHit_eq UpdateMisAtCameraHit_eq)

theorem at_hit_normal_asymmetry_witness:
  "ps_dVC (UpdateMisAtLightHit example_light_state example_surface example_oblique_hit) = 5 / 3
   \<and> ps_dVC (UpdateMisAtCameraHit example_light_state example_surface example_oblique_hit) = 5 / 4
   \<and> (\<exists>hit surface.
        RayPick example_lib
          (MakeRay example_lib (ps_position example_light_state) (ps_direction example_light_state)
             (ps_throughput example_light_state) 0 0) = Some hit
        \<and> CalculateSurfaceParams (shading example_lib) (vp_context example_pass) hit
             (UninitializedSurface example_lib) = Some surface
        \<and> map vtx_dVC (vp_pathVertices (fst (snd
             (LightPathBounce example_lib 2 (1 / 2) 1 example_pass example_light_state))))
           = [ps_dVC example_light_state
                / \<bar>Dot (surf_perturbedNormal surface) (hit_viewDirection hit)\<bar>])"
proof -
  let ?ray = "MakeRay example_lib (ps_position example_light_state)
                (ps_direction example_light_state) (ps_throughput example_light_state) 0 0"
  have dir: "ps_direction example_light_state = Float3 0 0 (- 1)"
    by (simp add: example_light_state_def)
  from example_RayPick [of "ps_position example_light_state" "ps_throughput example_light_state"]
  obtain hit where hit: "RayPick example_lib ?ray = Some hit"
    "hit_baryCoords hit = Float2 (1 / 4) (1 / 4)" "hit_viewDirection hit = Float3 0 0 1"
    unfolding dir by blast
  have sc: "ctx_scene (vp_context example_pass) = example_scene"
    by (simp add: example_pass_def example_context_def)
  from example_CalculateSurfaceParams [OF sc hit(2,3)]
  obtain surface where surface:
    "CalculateSurfaceParams (shading example_lib) (vp_context example_pass) hit
       (UninitializedSurface example_lib) = Some surface"
    by (auto simp: example_lib_def)
  note light = at_hit_normal_asymmetry
                 [of example_light_state example_surface example_oblique_hit, THEN conjunct1]
  note camera = at_hit_normal_asymmetry
                  [of example_light_state example_surface example_oblique_hit,
                   THEN conjunct2, THEN conjunct2, THEN conjunct2, THEN conjunct1]
  note bounce = at_hit_normal_asymmetry
                  [of example_light_state surface hit _ example_lib example_pass 2 "1 / 2" 1,
                   THEN conjunct2, THEN conjunct2, THEN conjunct2, THEN conjunct2,
                   THEN conjunct2, THEN conjunct2, THEN mp, OF conjI [OF hit(1) surface],
                   THEN conjunct1]
  note stored = at_hit_normal_asymmetry [of example_light_state surface hit, THEN conjunct1]
  have vs: "vp_pathVertices example_pass = []"
    by (simp add: example_pass_def)
  have a: "ps_dVC (UpdateMisAtLightHit example_light_state example_surface example_oblique_hit) = 5 / 3"
    by (subst light) (simp add: example_at_hit_values example_camera_state_simps)
  have b: "ps_dVC (UpdateMisAtCameraHit example_light_state example_surface example_oblique_hit) = 5 / 4"
    by (subst camera) (simp add: example_at_hit_values example_camera_state_simps)
  have c: "map vtx_dVC (vp_pathVertices (fst (snd
             (LightPathBounce example_lib 2 (1 / 2) 1 example_pass example_light_state))))
           = [ps_dVC example_light_state
                / \<bar>Dot (surf_perturbedNormal surface) (hit_viewDirection hit)\<bar>]"
    by (subst bounce) (simp add: vs stored)
  show ?thesis
    by (intro conjI a b exI [of _ hit] exI [of _ surface] hit(1) surface c)
qed

end
